theory Spec2Isabelle
  imports Complex_Main "HOL-Library.Sublist"
begin

section \<open>Data model (types.ts)\<close>

text \<open>
  The shapes of \<^verbatim>\<open>types.ts\<close> (in the sources: \<^verbatim>\<open>src/unnamed/part_002\<close>). A
  JavaScript string is modelled as an Isabelle \<open>string\<close>; a character stands for one code
  unit below 256 (the Latin-1 range), which covers every literal of the source. An
  optional field (\<^verbatim>\<open>pk?: boolean\<close>) is an \<open>option\<close>; \<open>None\<close> stands for an absent,
  \<^verbatim>\<open>undefined\<close> or \<^verbatim>\<open>null\<close> value, which the operators \<^verbatim>\<open>??\<close> and \<^verbatim>\<open>?.\<close> of the
  source do not tell apart. The two handles of an edge (\<^verbatim>\<open>sourceHandle?: string | null\<close>)
  are the exception, because the code writes \<^verbatim>\<open>null\<close> into them and the object spread
  tells a missing field from a field that holds \<^verbatim>\<open>null\<close>: for a handle \<open>None\<close> is the
  missing field, \<open>Some None\<close> the field that holds \<^verbatim>\<open>null\<close>, and \<open>Some (Some h)\<close> the
  handle \<open>h\<close>. Field names carry a prefix where two shapes of the source use the same
  name.

  Coordinates are JavaScript numbers, that is IEEE doubles. A finite double is modelled
  as the rational number it denotes. The sums and quotients of the code are rounded to a
  double; the rounding is not fixed here but is a parameter \<open>rnd\<close> of the one function
  that computes with coordinates (\<open>onConnect\<close>), so that \<^verbatim>\<open>a + b\<close> of the code is
  \<open>rnd (a + b)\<close>. The infinities, NaN and the negative zero are outside the model.
\<close>

record Column =
  col_id :: string
  col_name :: string
  col_type :: string
  pk :: "bool option"
  nullable :: "bool option"

record DatabaseNodeData =
  label :: string
  columns :: "Column list"
  isJoin :: "bool option"
  joinOf :: "(string \<times> string) option"

record Position =
  pos_x :: rat
  pos_y :: rat

record DiagramNode =
  node_id :: string
  node_type :: "string option"
  position :: Position
  node_data :: DatabaseNodeData

text \<open>
  \<^verbatim>\<open>RelationshipData\<close> as it can arrive at run time: every field may be missing, and
  \<^verbatim>\<open>kind\<close> and the multiplicities are whatever string the producer wrote.
\<close>

record RelationshipData =
  rel_id :: "string option"
  rel_source :: "string option"
  rel_target :: "string option"
  kind :: "string option"
  sourceMult :: "string option"
  targetMult :: "string option"
  rel_label :: "string option"

record DiagramEdge =
  edge_id :: string
  edge_source :: string
  edge_target :: string
  sourceHandle :: "string option option"
  targetHandle :: "string option option"
  edge_label :: "string option"
  edge_data :: "RelationshipData option"

record DiagramGraph =
  g_nodes :: "DiagramNode list"
  g_edges :: "DiagramEdge list"

section \<open>The diagram store (store/diagramStore.ts)\<close>

text \<open>
  The store \<^verbatim>\<open>useDiagramStore\<close>; in the sources it is the last part of
  \<^verbatim>\<open>src/frontend/src/components/RelationshipEditor.tsx\<close>. Each operation of the store
  is one call of \<^verbatim>\<open>set\<close>, modelled as a function from the state before to the state
  after.
\<close>

record DiagramState =
  nodes :: "DiagramNode list"
  edges :: "DiagramEdge list"
  selectedRelationshipKind :: string
  selectedSourceMult :: string
  selectedTargetMult :: string

text \<open>The operator \<^verbatim>\<open>a ?? b\<close>.\<close>

definition nullish :: "'a option \<Rightarrow> 'a \<Rightarrow> 'a" where
  "nullish a b = (case a of Some v \<Rightarrow> v | None \<Rightarrow> b)"

definition KIND_FALLBACK :: string where
  "KIND_FALLBACK = ''simple''"

definition isRelationshipKind :: "string option \<Rightarrow> bool" where
  "isRelationshipKind v =
     (v = Some ''simple'' \<or> v = Some ''flechaBlanca'' \<or> v = Some ''flechaNegra''
      \<or> v = Some ''segmentada'')"

text \<open>The object \<^verbatim>\<open>{} as RelationshipData\<close>.\<close>

definition emptyData :: RelationshipData where
  "emptyData = \<lparr>rel_id = None, rel_source = None, rel_target = None, kind = None,
     sourceMult = None, targetMult = None, rel_label = None\<rparr>"

definition normalizeEdge :: "DiagramEdge \<Rightarrow> DiagramEdge" where
  "normalizeEdge edge =
     (let data = nullish (edge_data edge) emptyData;
          k = (case kind data of
                 Some v \<Rightarrow> if isRelationshipKind (Some v) then v else KIND_FALLBACK
               | None \<Rightarrow> KIND_FALLBACK)
      in edge\<lparr>edge_data := Some (data\<lparr>
           rel_id := Some (nullish (rel_id data) (edge_id edge)),
           rel_source := Some (nullish (rel_source data) (edge_source edge)),
           rel_target := Some (nullish (rel_target data) (edge_target edge)),
           kind := Some k,
           sourceMult := Some (nullish (sourceMult data) ''1''),
           targetMult := Some (nullish (targetMult data) ''*''),
           rel_label := Some (nullish (rel_label data) [])\<rparr>)\<rparr>)"

text \<open>
  A JavaScript \<^verbatim>\<open>Map\<close> keeps its keys in insertion order: \<^verbatim>\<open>set\<close> on a key that is
  present replaces the value in place, on a new key it appends.
\<close>

fun map_set :: "(string \<times> 'v) list \<Rightarrow> string \<Rightarrow> 'v \<Rightarrow> (string \<times> 'v) list" where
  "map_set [] k v = [(k, v)]"
| "map_set ((k', v') # m) k v =
     (if k' = k then (k, v) # m else (k', v') # map_set m k v)"

text \<open>
  The shallow merge \<^verbatim>\<open>{ ...old, ...incoming }\<close>: a field that the incoming object
  carries wins, an optional field it lacks is kept from the old object. A handle that the
  incoming edge carries wins also when it holds \<^verbatim>\<open>null\<close>. (Of the other optional
  fields, one that is present with the value \<^verbatim>\<open>undefined\<close> counts as absent in this
  model; the code that is modelled here builds no such object.)
\<close>

definition orElse :: "'a option \<Rightarrow> 'a option \<Rightarrow> 'a option" where
  "orElse a b = (case a of Some v \<Rightarrow> Some v | None \<Rightarrow> b)"

definition mergeNode :: "DiagramNode \<Rightarrow> DiagramNode \<Rightarrow> DiagramNode" where
  "mergeNode old n = n\<lparr>node_type := orElse (node_type n) (node_type old)\<rparr>"

definition mergeEdge :: "DiagramEdge \<Rightarrow> DiagramEdge \<Rightarrow> DiagramEdge" where
  "mergeEdge old e = e\<lparr>
     sourceHandle := orElse (sourceHandle e) (sourceHandle old),
     targetHandle := orElse (targetHandle e) (targetHandle old),
     edge_label := orElse (edge_label e) (edge_label old),
     edge_data := orElse (edge_data e) (edge_data old)\<rparr>"

definition setGraph :: "DiagramGraph \<Rightarrow> DiagramState \<Rightarrow> DiagramState" where
  "setGraph graph st = st\<lparr>nodes := g_nodes graph, edges := map normalizeEdge (g_edges graph)\<rparr>"

definition resetGraph :: "DiagramState \<Rightarrow> DiagramState" where
  "resetGraph st = st\<lparr>nodes := [], edges := []\<rparr>"

definition setNodes :: "DiagramNode list \<Rightarrow> DiagramState \<Rightarrow> DiagramState" where
  "setNodes ns st = st\<lparr>nodes := ns\<rparr>"

definition setEdges :: "DiagramEdge list \<Rightarrow> DiagramState \<Rightarrow> DiagramState" where
  "setEdges es st = st\<lparr>edges := map normalizeEdge es\<rparr>"

definition addNodes :: "DiagramNode list \<Rightarrow> DiagramState \<Rightarrow> DiagramState" where
  "addNodes incoming st =
     (let next0 = foldl (\<lambda>m n. map_set m (node_id n) n) [] (nodes st);
          next1 = foldl (\<lambda>m n. map_set m (node_id n)
                    (case map_of m (node_id n) of
                       None \<Rightarrow> n
                     | Some old \<Rightarrow> mergeNode old n)) next0 incoming
      in st\<lparr>nodes := map snd next1\<rparr>)"

definition addEdges :: "DiagramEdge list \<Rightarrow> DiagramState \<Rightarrow> DiagramState" where
  "addEdges incoming st =
     (let next0 = foldl (\<lambda>m e. map_set m (edge_id e) e) [] (edges st);
          next1 = foldl (\<lambda>m e. map_set m (edge_id e)
                    (case map_of m (edge_id e) of
                       None \<Rightarrow> e
                     | Some existing \<Rightarrow> mergeEdge existing e)) next0 incoming
      in st\<lparr>edges := map normalizeEdge (map snd next1)\<rparr>)"

definition updateNodeData :: "string \<Rightarrow> DatabaseNodeData \<Rightarrow> DiagramState \<Rightarrow> DiagramState" where
  "updateNodeData nodeId d st =
     st\<lparr>nodes := map (\<lambda>n. if node_id n = nodeId then n\<lparr>node_data := d\<rparr> else n) (nodes st)\<rparr>"

definition removeNode :: "string \<Rightarrow> DiagramState \<Rightarrow> DiagramState" where
  "removeNode nodeId st =
     st\<lparr>nodes := filter (\<lambda>n. node_id n \<noteq> nodeId) (nodes st),
        edges := filter (\<lambda>e. edge_source e \<noteq> nodeId \<and> edge_target e \<noteq> nodeId) (edges st)\<rparr>"

definition removeEdge :: "string \<Rightarrow> DiagramState \<Rightarrow> DiagramState" where
  "removeEdge edgeId st = st\<lparr>edges := filter (\<lambda>e. edge_id e \<noteq> edgeId) (edges st)\<rparr>"

section \<open>Strings\<close>

text \<open>
  White space as \<^verbatim>\<open>String.prototype.trim\<close> and the regular expression class
  \<^verbatim>\<open>\s\<close> see it, among the code units below 256: tab, line feed, vertical tab, form
  feed, carriage return, space and the no-break space.
\<close>

definition is_space :: "char \<Rightarrow> bool" where
  "is_space c = (of_char c \<in> {9, 10, 11, 12, 13, 32, 160 :: nat})"

definition trim :: "string \<Rightarrow> string" where
  "trim s = rev (dropWhile is_space (rev (dropWhile is_space s)))"

text \<open>
  \<^verbatim>\<open>toLowerCase\<close> on one code unit below 256: the letters A to Z and the accented
  capitals (192 to 222 without the multiplication sign 215) move up by 32.
\<close>

definition toLowerChar :: "char \<Rightarrow> char" where
  "toLowerChar c =
     (let n = (of_char c :: nat)
      in if (65 \<le> n \<and> n \<le> 90) \<or> (192 \<le> n \<and> n \<le> 222 \<and> n \<noteq> 215)
         then char_of (n + 32) else c)"

definition toLowerCase :: "string \<Rightarrow> string" where
  "toLowerCase s = map toLowerChar s"

text \<open>\<^verbatim>\<open>text.includes(kw)\<close>: \<open>kw\<close> occurs in \<open>text\<close> as a contiguous block.\<close>

fun str_includes :: "string \<Rightarrow> string \<Rightarrow> bool" where
  "str_includes [] kw = (kw = [])"
| "str_includes (c # cs) kw = (prefix kw (c # cs) \<or> str_includes cs kw)"

text \<open>\<^verbatim>\<open>.replace(/\s+/g, "_")\<close>: every maximal run of white space becomes one underscore.\<close>

function replace_space_runs :: "string \<Rightarrow> string" where
  "replace_space_runs [] = []"
| "replace_space_runs (c # cs) =
     (if is_space c then CHR ''_'' # replace_space_runs (dropWhile is_space cs)
      else c # replace_space_runs cs)"
  by pat_completeness auto
termination
  by (relation "measure length") (auto simp: length_dropWhile_le less_Suc_eq_le)

text \<open>The character class \<^verbatim>\<open>[a-z0-9_]\<close>.\<close>

definition ident_char :: "char \<Rightarrow> bool" where
  "ident_char c =
     (let n = (of_char c :: nat)
      in (97 \<le> n \<and> n \<le> 122) \<or> (48 \<le> n \<and> n \<le> 57) \<or> n = 95)"

text \<open>
  \<^verbatim>\<open>value.trim().toLowerCase().replace(/\s+/g, "_").replace(/[^a-z0-9_]/g, "") || "relacion"\<close>
\<close>

definition toIdentifier :: "string \<Rightarrow> string" where
  "toIdentifier v =
     (let r = filter ident_char (replace_space_runs (toLowerCase (trim v)))
      in if r = [] then ''relacion'' else r)"

text \<open>
  The decimal numeral that a template literal writes for a non-negative integer, such as
  the milliseconds of \<^verbatim>\<open>Date.now()\<close>.
\<close>

definition digit_char :: "nat \<Rightarrow> char" where
  "digit_char d = char_of (48 + d)"

fun decimal :: "nat \<Rightarrow> string" where
  "decimal n = (if n < 10 then [digit_char n] else decimal (n div 10) @ [digit_char (n mod 10)])"

declare decimal.simps [simp del]

section \<open>The connection gesture (components/DiagramCanvas.tsx)\<close>

text \<open>
  \<^verbatim>\<open>onConnect\<close> of the canvas component; in the sources it is in
  \<^verbatim>\<open>src/frontend/src/components/TableEditor.tsx\<close>. The component reads \<^verbatim>\<open>nodes\<close> and
  the tool selection from the store and writes through \<^verbatim>\<open>addNodes\<close> and
  \<^verbatim>\<open>addEdges\<close>.
\<close>

record Connection =
  conn_source :: "string option"
  conn_target :: "string option"
  conn_sourceHandle :: "string option"
  conn_targetHandle :: "string option"

text \<open>
  \<^verbatim>\<open>onConnect\<close> reads the clock once on the direct path (\<open>now1\<close>) and twice on the
  many-to-many path (\<open>now1\<close> for the join id, \<open>now2\<close> for the two edge ids). The readings
  are parameters of the model, and so is the rounding \<open>rnd\<close> of the double arithmetic:
  \<^verbatim>\<open>(sourcePosition.x + targetPosition.x) / 2\<close> is \<open>rnd (rnd (sx + tx) / 2)\<close> and
  \<^verbatim>\<open>Math.max(sourcePosition.y, targetPosition.y) + 200\<close> is \<open>rnd (max sy ty + 200)\<close>.
  A source or target that is \<^verbatim>\<open>null\<close> or the empty string ends the gesture with no
  change. The edge of the direct path carries the two handles of the connection, which
  may hold \<^verbatim>\<open>null\<close>; the two edges of the many-to-many path have no handle fields.
\<close>

definition joinIdOf :: "string \<Rightarrow> string \<Rightarrow> nat \<Rightarrow> string" where
  "joinIdOf src tgt now1 = ''join-'' @ src @ ''-'' @ tgt @ ''-'' @ decimal now1"

definition edgeIdOf :: "string \<Rightarrow> string \<Rightarrow> nat \<Rightarrow> string" where
  "edgeIdOf src tgt now = ''edge-'' @ src @ ''-'' @ tgt @ ''-'' @ decimal now"

definition fullData ::
  "string \<Rightarrow> string \<Rightarrow> string \<Rightarrow> string \<Rightarrow> string \<Rightarrow> string \<Rightarrow> string \<Rightarrow> RelationshipData" where
  "fullData i s t k sm tm l =
     \<lparr>rel_id = Some i, rel_source = Some s, rel_target = Some t, kind = Some k,
      sourceMult = Some sm, targetMult = Some tm, rel_label = Some l\<rparr>"

definition onConnect ::
  "(rat \<Rightarrow> rat) \<Rightarrow> nat \<Rightarrow> nat \<Rightarrow> Connection \<Rightarrow> DiagramState \<Rightarrow> DiagramState" where
  "onConnect rnd now1 now2 connection st =
     (case (conn_source connection, conn_target connection) of
        (Some src, Some tgt) \<Rightarrow>
          if src = [] \<or> tgt = [] then st
          else if selectedRelationshipKind st = ''segmentada''
                  \<and> selectedSourceMult st = ''*'' \<and> selectedTargetMult st = ''*''
          then
            (let sourceNode = find (\<lambda>n. node_id n = src) (nodes st);
                 targetNode = find (\<lambda>n. node_id n = tgt) (nodes st);
                 sourceLabel = (case sourceNode of Some n \<Rightarrow> label (node_data n) | None \<Rightarrow> src);
                 targetLabel = (case targetNode of Some n \<Rightarrow> label (node_data n) | None \<Rightarrow> tgt);
                 joinId = joinIdOf src tgt now1;
                 joinLabel = sourceLabel @ ''_'' @ targetLabel;
                 sourcePosition = (case sourceNode of Some n \<Rightarrow> position n
                                   | None \<Rightarrow> \<lparr>pos_x = 100, pos_y = 100\<rparr>);
                 targetPosition = (case targetNode of Some n \<Rightarrow> position n
                                   | None \<Rightarrow> \<lparr>pos_x = rnd (pos_x sourcePosition + 200),
                                               pos_y = pos_y sourcePosition\<rparr>);
                 joinPosition =
                   \<lparr>pos_x = rnd (rnd (pos_x sourcePosition + pos_x targetPosition) / 2),
                    pos_y = rnd (max (pos_y sourcePosition) (pos_y targetPosition) + 200)\<rparr>;
                 joinColumns =
                   [\<lparr>col_id = joinId @ ''-id'', col_name = ''id'', col_type = ''INT'',
                      pk = Some True, nullable = Some False\<rparr>,
                    \<lparr>col_id = joinId @ ''-'' @ src, col_name = toIdentifier sourceLabel @ ''_id'',
                      col_type = ''INT'', pk = None, nullable = Some False\<rparr>,
                    \<lparr>col_id = joinId @ ''-'' @ tgt, col_name = toIdentifier targetLabel @ ''_id'',
                      col_type = ''INT'', pk = None, nullable = Some False\<rparr>];
                 st1 = addNodes
                   [\<lparr>node_id = joinId, node_type = Some ''databaseNode'', position = joinPosition,
                      node_data = \<lparr>label = joinLabel, columns = joinColumns, isJoin = Some True,
                                   joinOf = Some (sourceLabel, targetLabel)\<rparr>\<rparr>] st;
                 leftEdgeId = edgeIdOf src joinId now2;
                 rightEdgeId = edgeIdOf joinId tgt now2
             in addEdges
                  [\<lparr>edge_id = leftEdgeId, edge_source = src, edge_target = joinId,
                     sourceHandle = None, targetHandle = None, edge_label = Some [],
                     edge_data = Some (fullData leftEdgeId src joinId ''simple''
                                        (selectedSourceMult st) ''1'' [])\<rparr>,
                   \<lparr>edge_id = rightEdgeId, edge_source = joinId, edge_target = tgt,
                     sourceHandle = None, targetHandle = None, edge_label = Some [],
                     edge_data = Some (fullData rightEdgeId joinId tgt ''simple''
                                        ''1'' (selectedTargetMult st) [])\<rparr>] st1)
          else
            (let i = edgeIdOf src tgt now1
             in addEdges
                  [\<lparr>edge_id = i, edge_source = src, edge_target = tgt,
                     sourceHandle = Some (conn_sourceHandle connection),
                     targetHandle = Some (conn_targetHandle connection), edge_label = Some [],
                     edge_data = Some (fullData i src tgt (selectedRelationshipKind st)
                                        (selectedSourceMult st) (selectedTargetMult st) [])\<rparr>] st)
      | _ \<Rightarrow> st)"

section \<open>The offline fallback generator (components/ChatPanel.tsx)\<close>

text \<open>
  The functions at the end of the chat panel's file; in the sources it is the last part
  of \<^verbatim>\<open>src/frontend/src/components/AuthView.tsx\<close>.
\<close>

text \<open>
  The optional argument \<^verbatim>\<open>extra: Partial<DatabaseNodeData>\<close> of \<^verbatim>\<open>buildNode\<close>: the
  fields it carries are spread over the label and the columns.
\<close>

record NodeDataPatch =
  patch_label :: "string option"
  patch_columns :: "Column list option"
  patch_isJoin :: "bool option"
  patch_joinOf :: "(string \<times> string) option"

definition noExtra :: NodeDataPatch where
  "noExtra = \<lparr>patch_label = None, patch_columns = None, patch_isJoin = None, patch_joinOf = None\<rparr>"

definition buildNode ::
  "string \<Rightarrow> string \<Rightarrow> Column list \<Rightarrow> Position \<Rightarrow> NodeDataPatch \<Rightarrow> DiagramNode" where
  "buildNode i l cols p extra =
     \<lparr>node_id = i, node_type = Some ''databaseNode'', position = p,
      node_data = \<lparr>label = nullish (patch_label extra) l,
                   columns = nullish (patch_columns extra) cols,
                   isJoin = patch_isJoin extra, joinOf = patch_joinOf extra\<rparr>\<rparr>"

definition buildEdge ::
  "string \<Rightarrow> string \<Rightarrow> string \<Rightarrow> string \<Rightarrow> string \<Rightarrow> string \<Rightarrow> string \<Rightarrow> DiagramEdge" where
  "buildEdge i s t sm tm k l =
     \<lparr>edge_id = i, edge_source = s, edge_target = t, sourceHandle = None, targetHandle = None,
      edge_label = Some l,
      edge_data = Some \<lparr>rel_id = Some i, rel_source = Some s, rel_target = Some t,
                        kind = Some k, sourceMult = Some sm, targetMult = Some tm,
                        rel_label = Some l\<rparr>\<rparr>"

text \<open>A column literal with \<^verbatim>\<open>pk: true\<close>, and one that has no \<^verbatim>\<open>pk\<close> field.\<close>

definition pkColumn :: "string \<Rightarrow> string \<Rightarrow> string \<Rightarrow> bool \<Rightarrow> Column" where
  "pkColumn i n t nl = \<lparr>col_id = i, col_name = n, col_type = t, pk = Some True, nullable = Some nl\<rparr>"

definition column :: "string \<Rightarrow> string \<Rightarrow> string \<Rightarrow> bool \<Rightarrow> Column" where
  "column i n t nl = \<lparr>col_id = i, col_name = n, col_type = t, pk = None, nullable = Some nl\<rparr>"

definition buildSupermarketDiagram :: DiagramGraph where
  "buildSupermarketDiagram =
     \<lparr>g_nodes =
        [buildNode ''node-productos'' ''Productos''
           [pkColumn ''prod-id'' ''id'' ''INT'' False,
            column ''prod-nombre'' ''nombre'' ''VARCHAR(120)'' False,
            column ''prod-precio'' ''precio'' ''DECIMAL(10,2)'' False,
            column ''prod-stock'' ''stock'' ''INT'' False]
           \<lparr>pos_x = 460, pos_y = 140\<rparr> noExtra,
         buildNode ''node-categorias'' ''Categorias''
           [pkColumn ''cat-id'' ''id'' ''INT'' False,
            column ''cat-nombre'' ''nombre'' ''VARCHAR(120)'' False,
            column ''cat-descripcion'' ''descripcion'' ''TEXT'' True]
           \<lparr>pos_x = 180, pos_y = 80\<rparr> noExtra,
         buildNode ''node-proveedores'' ''Proveedores''
           [pkColumn ''prov-id'' ''id'' ''INT'' False,
            column ''prov-nombre'' ''nombre'' ''VARCHAR(150)'' False,
            column ''prov-telefono'' ''telefono'' ''VARCHAR(50)'' True,
            column ''prov-email'' ''email'' ''VARCHAR(120)'' True]
           \<lparr>pos_x = 760, pos_y = 80\<rparr> noExtra,
         buildNode ''node-clientes'' ''Clientes''
           [pkColumn ''cli-id'' ''id'' ''INT'' False,
            column ''cli-nombre'' ''nombre'' ''VARCHAR(150)'' False,
            column ''cli-email'' ''email'' ''VARCHAR(150)'' True,
            column ''cli-telefono'' ''telefono'' ''VARCHAR(50)'' True]
           \<lparr>pos_x = 180, pos_y = 360\<rparr> noExtra,
         buildNode ''node-empleados'' ''Empleados''
           [pkColumn ''emp-id'' ''id'' ''INT'' False,
            column ''emp-nombre'' ''nombre'' ''VARCHAR(150)'' False,
            column ''emp-rol'' ''rol'' ''VARCHAR(80)'' False]
           \<lparr>pos_x = 760, pos_y = 360\<rparr> noExtra,
         buildNode ''node-ventas'' ''Ventas''
           [pkColumn ''ven-id'' ''id'' ''INT'' False,
            column ''ven-fecha'' ''fecha'' ''DATETIME'' False,
            column ''ven-total'' ''total'' ''DECIMAL(10,2)'' False,
            column ''ven-cliente'' ''cliente_id'' ''INT'' False,
            column ''ven-empleado'' ''empleado_id'' ''INT'' False]
           \<lparr>pos_x = 460, pos_y = 360\<rparr> noExtra,
         buildNode ''node-detalle-venta'' ''DetalleVenta''
           [pkColumn ''det-id'' ''id'' ''INT'' False,
            column ''det-venta'' ''venta_id'' ''INT'' False,
            column ''det-producto'' ''producto_id'' ''INT'' False,
            column ''det-cantidad'' ''cantidad'' ''INT'' False,
            column ''det-precio'' ''precio_unitario'' ''DECIMAL(10,2)'' False]
           \<lparr>pos_x = 460, pos_y = 560\<rparr>
           (noExtra\<lparr>patch_isJoin := Some True, patch_joinOf := Some (''Ventas'', ''Productos'')\<rparr>),
         buildNode ''node-inventario'' ''Inventario''
           [pkColumn ''inv-id'' ''id'' ''INT'' False,
            column ''inv-producto'' ''producto_id'' ''INT'' False,
            column ''inv-sucursal'' ''sucursal'' ''VARCHAR(80)'' False,
            column ''inv-stock'' ''stock_actual'' ''INT'' False]
           \<lparr>pos_x = 900, pos_y = 360\<rparr> noExtra],
      g_edges =
        [buildEdge ''edge-cat-productos'' ''node-categorias'' ''node-productos'' ''1'' ''*'' ''simple'' [],
         buildEdge ''edge-prov-productos'' ''node-proveedores'' ''node-productos'' ''1'' ''*'' ''simple'' [],
         buildEdge ''edge-productos-inventario'' ''node-productos'' ''node-inventario'' ''1'' ''*'' ''simple'' [],
         buildEdge ''edge-clientes-ventas'' ''node-clientes'' ''node-ventas'' ''1'' ''*'' ''simple'' [],
         buildEdge ''edge-empleados-ventas'' ''node-empleados'' ''node-ventas'' ''1'' ''*'' ''simple'' [],
         buildEdge ''edge-ventas-detalle'' ''node-ventas'' ''node-detalle-venta'' ''1'' ''*'' ''simple'' [],
         buildEdge ''edge-productos-detalle'' ''node-productos'' ''node-detalle-venta'' ''1'' ''*'' ''simple'' []]\<rparr>"

definition buildDefaultDiagram :: DiagramGraph where
  "buildDefaultDiagram =
     \<lparr>g_nodes =
        [buildNode ''node-usuario-ai'' ''Usuario''
           [pkColumn ''u-id'' ''id'' ''INT'' False,
            column ''u-nombre'' ''nombre'' ''VARCHAR(100)'' False,
            column ''u-email'' ''email'' ''VARCHAR(150)'' False]
           \<lparr>pos_x = 200, pos_y = 140\<rparr> noExtra,
         buildNode ''node-post-ai'' ''Post''
           [pkColumn ''p-id'' ''id'' ''INT'' False,
            column ''p-user'' ''user_id'' ''INT'' False,
            column ''p-title'' ''titulo'' ''VARCHAR(200)'' False]
           \<lparr>pos_x = 520, pos_y = 200\<rparr> noExtra],
      g_edges =
        [buildEdge ''edge-usuario-post-ai'' ''node-usuario-ai'' ''node-post-ai'' ''1'' ''*''
           ''simple'' ''Usuario crea Post'']\<rparr>"

definition buildFallbackDiagram :: "string \<Rightarrow> DiagramGraph option" where
  "buildFallbackDiagram p =
     (let text = toLowerCase p
      in if str_includes text ''supermercado'' \<or> str_includes text ''supermarket''
         then Some buildSupermarketDiagram
         else if str_includes text ''usuario'' \<or> str_includes text ''post''
         then Some buildDefaultDiagram
         else None)"

section \<open>The chat panel and its history (components/ChatPanel.tsx)\<close>

record PromptHistoryEntry =
  h_id :: int
  userId :: int
  h_prompt :: string
  h_graph :: DiagramGraph
  createdAt :: string

record ApiHistoryItem =
  api_id :: int
  user_id :: int
  api_prompt :: string
  api_graph :: DiagramGraph
  created_at :: string

text \<open>
  The state of the component \<^verbatim>\<open>ChatPanel\<close> (in the sources:
  \<^verbatim>\<open>src/frontend/src/components/AuthView.tsx\<close>): its \<^verbatim>\<open>useState\<close> cells, the ref
  \<^verbatim>\<open>activeHistoryIdRef\<close>, and the diagram store it writes through \<^verbatim>\<open>setGraph\<close>.
  The dictation cells play no part in the history and are left out. The active
  conversation pointer lives twice, in the cell \<open>activeHistoryId\<close>, which the handlers
  \<^verbatim>\<open>handleGenerate\<close> and \<^verbatim>\<open>handleProcessImage\<close> read, and in the ref, which
  \<^verbatim>\<open>loadHistory\<close> reads; an effect copies the cell into the ref after each render.
  A handler reads the cells as they were when it was called.
\<close>

record ChatState =
  prompt :: string
  isLoading :: bool
  error :: "string option"
  history :: "PromptHistoryEntry list"
  isHistoryLoading :: bool
  historyError :: "string option"
  deletingId :: "int option"
  isClearingHistory :: bool
  activeHistoryId :: "int option"
  activeHistoryIdRef :: "int option"
  store :: DiagramState

definition DEFAULT_PROMPT :: string where
  "DEFAULT_PROMPT =
     ''Crea tablas Usuario(id, nombre, email) y Post(id, user_id, titulo). Relacion 1:N''"

text \<open>
  The requests a handler sends, in order. What the services answer is a parameter of each
  handler: the model runs a handler from its call to the end of its \<^verbatim>\<open>finally\<close>
  block.
\<close>

datatype api_call =
    GetHistory
  | DeleteHistoryEntry int
  | DeleteHistory
  | PostGenerate string "DiagramNode list" "DiagramEdge list" "int option"
  | PostVision "string option" "int option"

text \<open>
  The answer to \<^verbatim>\<open>GET /ai/history\<close>: a failure, or a body, which is \<open>None\<close> when it is
  not an array.
\<close>

datatype history_reply = HistoryError | HistoryData "ApiHistoryItem list option"

text \<open>
  The answer to \<^verbatim>\<open>POST /ai/generate\<close>: a body whose \<^verbatim>\<open>nodes\<close> and \<^verbatim>\<open>edges\<close> are
  \<open>None\<close> when they are not arrays (the body has no other field that the handler reads);
  or a failure, with the \<^verbatim>\<open>detail\<close> of the error response if the failure is an axios
  error whose response has one, and with the \<^verbatim>\<open>message\<close> of the error if it has one.
  The handler shows a detail only when it is truthy: an empty detail counts as none.
\<close>

record GenerateResponse =
  resp_nodes :: "DiagramNode list option"
  resp_edges :: "DiagramEdge list option"

datatype generate_reply =
    GenerateData GenerateResponse
  | GenerateError "string option" "string option"

record VisionResponse =
  v_graph :: DiagramGraph
  v_history_id :: "int option"
  v_prompt :: "string option"

datatype vision_reply =
    VisionData VisionResponse
  | VisionError "string option" "string option"

record LoadHistoryOptions =
  preserveNullSelection :: "bool option"

text \<open>
  The completion of an edge in \<^verbatim>\<open>applyGraphToCanvas\<close>. An edge of type
  \<^verbatim>\<open>DiagramEdge\<close> has an id, so the random id that the source keeps for an edge
  without one is never drawn. The guards \<^verbatim>\<open>Array.isArray\<close> of that function are the
  identity on a \<^verbatim>\<open>DiagramGraph\<close>.
\<close>

definition sanitizeEdge :: "DiagramEdge \<Rightarrow> DiagramEdge" where
  "sanitizeEdge edge =
     (let baseData = nullish (edge_data edge) emptyData
      in edge\<lparr>edge_data := Some (baseData\<lparr>
           rel_id := Some (nullish (rel_id baseData) (edge_id edge)),
           rel_source := Some (nullish (rel_source baseData) (edge_source edge)),
           rel_target := Some (nullish (rel_target baseData) (edge_target edge)),
           kind := Some (nullish (kind baseData) ''simple''),
           sourceMult := Some (nullish (sourceMult baseData) ''1''),
           targetMult := Some (nullish (targetMult baseData) ''*''),
           rel_label := Some (nullish (rel_label baseData) [])\<rparr>)\<rparr>)"

definition applyGraphToCanvas :: "DiagramGraph \<Rightarrow> ChatState \<Rightarrow> ChatState" where
  "applyGraphToCanvas graph st =
     st\<lparr>store := setGraph \<lparr>g_nodes = g_nodes graph,
                             g_edges = map sanitizeEdge (g_edges graph)\<rparr> (store st)\<rparr>"

text \<open>The effect that copies \<^verbatim>\<open>activeHistoryId\<close> into the ref after a render.\<close>

definition syncActiveRef :: "ChatState \<Rightarrow> ChatState" where
  "syncActiveRef st = st\<lparr>activeHistoryIdRef := activeHistoryId st\<rparr>"

definition mapHistoryItem :: "ApiHistoryItem \<Rightarrow> PromptHistoryEntry" where
  "mapHistoryItem item =
     \<lparr>h_id = api_id item, userId = user_id item, h_prompt = api_prompt item,
      h_graph = api_graph item, createdAt = created_at item\<rparr>"

definition loadHistory :: "LoadHistoryOptions \<Rightarrow> history_reply \<Rightarrow> ChatState \<Rightarrow> ChatState" where
  "loadHistory options reply st =
     (let st1 = st\<lparr>isHistoryLoading := True, historyError := None\<rparr>;
          st2 = (case reply of
                   HistoryData body \<Rightarrow>
                     (let mapped = map mapHistoryItem (nullish body []);
                          currentActive = activeHistoryIdRef st1;
                          exists = (currentActive \<noteq> None
                                    \<and> list_ex (\<lambda>entry. Some (h_id entry) = currentActive) mapped);
                          nextActive =
                            (if exists then currentActive
                             else if preserveNullSelection options = Some True
                                     \<and> currentActive = None then None
                             else (case mapped of [] \<Rightarrow> None | e # _ \<Rightarrow> Some (h_id e)))
                      in st1\<lparr>history := mapped, activeHistoryId := nextActive,
                             activeHistoryIdRef := nextActive\<rparr>)
                 | HistoryError \<Rightarrow> st1\<lparr>historyError := Some ''No se pudo cargar el historial.''\<rparr>)
      in st2\<lparr>isHistoryLoading := False\<rparr>)"

text \<open>The effect on mount: \<^verbatim>\<open>void loadHistory()\<close>, with the default options \<^verbatim>\<open>{}\<close>.\<close>

definition loadHistoryOnMount :: "history_reply \<Rightarrow> ChatState \<Rightarrow> ChatState" where
  "loadHistoryOnMount reply st = loadHistory \<lparr>preserveNullSelection = None\<rparr> reply st"

definition handleHistorySelect :: "PromptHistoryEntry \<Rightarrow> ChatState \<Rightarrow> ChatState" where
  "handleHistorySelect entry st =
     (applyGraphToCanvas (h_graph entry) st)
       \<lparr>prompt := h_prompt entry, error := None, activeHistoryId := Some (h_id entry)\<rparr>"

text \<open>
  \<^verbatim>\<open>handleDeleteEntry\<close>: \<open>confirmed\<close> is the answer of \<^verbatim>\<open>window.confirm\<close>,
  \<open>deleted\<close> tells whether \<^verbatim>\<open>DELETE /ai/history/:id\<close> succeeded.
\<close>

definition handleDeleteEntry ::
  "int \<Rightarrow> bool \<Rightarrow> bool \<Rightarrow> history_reply \<Rightarrow> ChatState \<Rightarrow> ChatState \<times> api_call list" where
  "handleDeleteEntry historyId confirmed deleted reply st =
     (if isClearingHistory st then (st, [])
      else if \<not> confirmed then (st, [])
      else
        (let st1 = st\<lparr>deletingId := Some historyId, historyError := None\<rparr>
         in if deleted
            then ((loadHistory \<lparr>preserveNullSelection = Some True\<rparr> reply st1)
                    \<lparr>deletingId := None\<rparr>,
                  [DeleteHistoryEntry historyId, GetHistory])
            else (st1\<lparr>historyError := Some ''No se pudo eliminar la entrada.'',
                       deletingId := None\<rparr>,
                  [DeleteHistoryEntry historyId])))"

text \<open>
  \<^verbatim>\<open>handleClearHistory\<close> in two steps around its \<^verbatim>\<open>await\<close>: the part that runs
  before the request is sent (\<open>None\<close> when the handler returns early), and the part that
  runs once the request has been answered.
\<close>

definition handleClearHistory_begin :: "bool \<Rightarrow> ChatState \<Rightarrow> ChatState option" where
  "handleClearHistory_begin confirmed st =
     (if length (history st) = 0 then None
      else if \<not> confirmed then None
      else Some (st\<lparr>isClearingHistory := True, historyError := None\<rparr>))"

definition handleClearHistory_end :: "bool \<Rightarrow> ChatState \<Rightarrow> ChatState" where
  "handleClearHistory_end deleted st =
     (let st1 = (if deleted
                 then st\<lparr>history := [], activeHistoryId := None, activeHistoryIdRef := None,
                         prompt := DEFAULT_PROMPT\<rparr>
                 else st\<lparr>historyError := Some ''No se pudo limpiar el historial.''\<rparr>)
      in st1\<lparr>isClearingHistory := False, deletingId := None\<rparr>)"

definition handleClearHistory :: "bool \<Rightarrow> bool \<Rightarrow> ChatState \<Rightarrow> ChatState \<times> api_call list" where
  "handleClearHistory confirmed deleted st =
     (case handleClearHistory_begin confirmed st of
        None \<Rightarrow> (st, [])
      | Some st1 \<Rightarrow> (handleClearHistory_end deleted st1, [DeleteHistory]))"

definition handleNewConversation :: "ChatState \<Rightarrow> ChatState" where
  "handleNewConversation st =
     st\<lparr>prompt := [], error := None, activeHistoryId := None, activeHistoryIdRef := None\<rparr>"

text \<open>
  The operator \<^verbatim>\<open>a || b\<close> on strings, and the test \<^verbatim>\<open>if (detail)\<close> on an optional
  string: the empty string is falsy.
\<close>

definition truthy :: "string option \<Rightarrow> bool" where
  "truthy a = (case a of None \<Rightarrow> False | Some v \<Rightarrow> v \<noteq> [])"

definition orString :: "string \<Rightarrow> string \<Rightarrow> string" where
  "orString a b = (if a = [] then b else a)"

text \<open>\<^verbatim>\<open>history.map(entry => entry.id === id ? { ...entry, prompt, graph } : entry)\<close>\<close>

definition patchHistory ::
  "int \<Rightarrow> (PromptHistoryEntry \<Rightarrow> string) \<Rightarrow> DiagramGraph \<Rightarrow> PromptHistoryEntry list
     \<Rightarrow> PromptHistoryEntry list" where
  "patchHistory a newPrompt graph prev =
     map (\<lambda>entry. if h_id entry = a then entry\<lparr>h_prompt := newPrompt entry, h_graph := graph\<rparr>
                   else entry) prev"

text \<open>
  \<^verbatim>\<open>handleProcessImage\<close>: \<open>fileType\<close> is the MIME type of the chosen file.
\<close>

definition handleProcessImage ::
  "string \<Rightarrow> vision_reply \<Rightarrow> history_reply \<Rightarrow> ChatState \<Rightarrow> ChatState \<times> api_call list" where
  "handleProcessImage fileType vreply hreply st =
     (if \<not> prefix ''image/'' fileType
      then (st\<lparr>error := Some ''Selecciona un archivo de imagen (png, jpg, svg, etc.).''\<rparr>, [])
      else
        (let trimmedPrompt = trim (prompt st);
             st1 = st\<lparr>isLoading := True, error := None\<rparr>;
             call = PostVision (if trimmedPrompt = [] then None else Some trimmedPrompt)
                      (activeHistoryId st)
         in case vreply of
              VisionData response \<Rightarrow>
                (let graph = v_graph response;
                     historyIdFromResponse = v_history_id response;
                     promptFromResponse = nullish (v_prompt response) trimmedPrompt;
                     st2 = (applyGraphToCanvas graph st1)
                             \<lparr>prompt := orString promptFromResponse trimmedPrompt, error := None\<rparr>;
                     patched = (activeHistoryId st \<noteq> None
                                \<and> historyIdFromResponse = activeHistoryId st);
                     st3 = (case activeHistoryId st of
                              Some a \<Rightarrow>
                                if historyIdFromResponse = Some a
                                then st2\<lparr>history := patchHistory a
                                          (\<lambda>entry. orString promptFromResponse (h_prompt entry))
                                          graph (history st2)\<rparr>
                                else loadHistory \<lparr>preserveNullSelection = Some False\<rparr> hreply st2
                            | None \<Rightarrow> loadHistory \<lparr>preserveNullSelection = Some False\<rparr> hreply st2);
                     st4 = (case historyIdFromResponse of
                              Some h \<Rightarrow>
                                if h \<noteq> 0
                                then st3\<lparr>activeHistoryId := Some h, activeHistoryIdRef := Some h\<rparr>
                                else st3
                            | None \<Rightarrow> st3)
                 in (st4\<lparr>isLoading := False\<rparr>, if patched then [call] else [call, GetHistory]))
            | VisionError detail message \<Rightarrow>
                (if truthy detail
                 then (st1\<lparr>error := detail, isLoading := False\<rparr>, [call])
                 else (st1\<lparr>error := Some (nullish message ''No se pudo interpretar la imagen.''),
                           isLoading := False\<rparr>, [call]))))"

text \<open>
  The graph that \<^verbatim>\<open>handleGenerate\<close> reads off the response body: a field that is not an
  array counts as the empty array.
\<close>

definition responseGraph :: "GenerateResponse \<Rightarrow> DiagramGraph" where
  "responseGraph response =
     \<lparr>g_nodes = nullish (resp_nodes response) [], g_edges = nullish (resp_edges response) []\<rparr>"

definition handleGenerate ::
  "generate_reply \<Rightarrow> history_reply \<Rightarrow> ChatState \<Rightarrow> ChatState \<times> api_call list" where
  "handleGenerate greply hreply st =
     (let trimmed = trim (prompt st)
      in if trimmed = []
         then (st\<lparr>error := Some ''Escribe un prompt para generar el diagrama.''\<rparr>, [])
         else
           (let st1 = st\<lparr>isLoading := True, error := None\<rparr>;
                call = PostGenerate trimmed (nodes (store st))
                         (map (\<lambda>e. e\<lparr>sourceHandle := None, targetHandle := None\<rparr>)
                            (edges (store st)))
                         (activeHistoryId st)
            in case greply of
                 GenerateData response \<Rightarrow>
                   (let graph = responseGraph response
                    in if length (g_nodes graph) = 0 \<and> length (g_edges graph) = 0
                       then (st1\<lparr>error := Some ''La respuesta no contiene nodos ni relaciones.'',
                                  isLoading := False\<rparr>, [call])
                       else
                         (let st2 = (applyGraphToCanvas graph st1)\<lparr>error := None\<rparr>
                          in case activeHistoryId st of
                               Some a \<Rightarrow>
                                 (st2\<lparr>history := patchHistory a (\<lambda>entry. trimmed) graph
                                                    (history st2),
                                       isLoading := False\<rparr>, [call])
                             | None \<Rightarrow>
                                 ((loadHistory \<lparr>preserveNullSelection = Some False\<rparr> hreply st2)
                                    \<lparr>isLoading := False\<rparr>, [call, GetHistory])))
               | GenerateError detail message \<Rightarrow>
                   (if truthy detail
                    then (st1\<lparr>error := detail, isLoading := False\<rparr>, [call])
                    else
                      (case buildFallbackDiagram trimmed of
                         Some fallback \<Rightarrow>
                           ((applyGraphToCanvas fallback st1)
                              \<lparr>error := Some ''Backend no disponible; se genero un diseno local.'',
                               isLoading := False\<rparr>, [call])
                       | None \<Rightarrow>
                           (st1\<lparr>error :=
                                  Some (nullish message ''No fue posible generar el diagrama.''),
                                isLoading := False\<rparr>, [call])))))"

section \<open>Saving the table editor (components/DiagramCanvas.tsx)\<close>

text \<open>
  \<^verbatim>\<open>handleSaveTable\<close>, as far as the store is concerned (it also closes the editor):
  \<open>editingNode\<close> is the node whose editor is open, if any. The payload is the object
  \<^verbatim>\<open>{ label: tableName, columns }\<close>, which has no \<^verbatim>\<open>isJoin\<close> and no \<^verbatim>\<open>joinOf\<close>.
\<close>

definition handleSaveTable ::
  "DiagramNode option \<Rightarrow> string \<Rightarrow> Column list \<Rightarrow> DiagramState \<Rightarrow> DiagramState" where
  "handleSaveTable editingNode tableName cols st =
     (case editingNode of
        None \<Rightarrow> st
      | Some en \<Rightarrow>
          (let payload = \<lparr>label = tableName, columns = cols, isJoin = None, joinOf = None\<rparr>
           in if list_ex (\<lambda>n. node_id n = node_id en) (nodes st)
              then updateNodeData (node_id en) payload st
              else addNodes [en\<lparr>node_data := payload\<rparr>] st))"

section \<open>Patching relationships in the store (store/diagramStore.ts)\<close>

text \<open>
  \<^verbatim>\<open>Partial<DiagramEdge>\<close>, the argument of \<^verbatim>\<open>updateEdge\<close>. The argument of
  \<^verbatim>\<open>updateEdgeData\<close>, \<^verbatim>\<open>Partial<RelationshipData>\<close>, is a \<open>RelationshipData\<close>, whose
  fields are all optional already.
\<close>

record EdgePatch =
  upd_id :: "string option"
  upd_source :: "string option"
  upd_target :: "string option"
  upd_sourceHandle :: "string option option"
  upd_targetHandle :: "string option option"
  upd_label :: "string option"
  upd_data :: "RelationshipData option"

definition applyEdgePatch :: "DiagramEdge \<Rightarrow> EdgePatch \<Rightarrow> DiagramEdge" where
  "applyEdgePatch edge updates =
     \<lparr>edge_id = nullish (upd_id updates) (edge_id edge),
      edge_source = nullish (upd_source updates) (edge_source edge),
      edge_target = nullish (upd_target updates) (edge_target edge),
      sourceHandle = orElse (upd_sourceHandle updates) (sourceHandle edge),
      targetHandle = orElse (upd_targetHandle updates) (targetHandle edge),
      edge_label = orElse (upd_label updates) (edge_label edge),
      edge_data = orElse (upd_data updates) (edge_data edge)\<rparr>"

definition mergeData :: "RelationshipData \<Rightarrow> RelationshipData \<Rightarrow> RelationshipData" where
  "mergeData old d =
     \<lparr>rel_id = orElse (rel_id d) (rel_id old),
      rel_source = orElse (rel_source d) (rel_source old),
      rel_target = orElse (rel_target d) (rel_target old),
      kind = orElse (kind d) (kind old),
      sourceMult = orElse (sourceMult d) (sourceMult old),
      targetMult = orElse (targetMult d) (targetMult old),
      rel_label = orElse (rel_label d) (rel_label old)\<rparr>"

definition updateEdge :: "string \<Rightarrow> EdgePatch \<Rightarrow> DiagramState \<Rightarrow> DiagramState" where
  "updateEdge edgeId updates st =
     st\<lparr>edges := map (\<lambda>edge. if edge_id edge = edgeId
                               then normalizeEdge (applyEdgePatch edge updates) else edge)
                     (edges st)\<rparr>"

definition updateEdgeData :: "string \<Rightarrow> RelationshipData \<Rightarrow> DiagramState \<Rightarrow> DiagramState" where
  "updateEdgeData edgeId d st =
     st\<lparr>edges := map (\<lambda>edge. if edge_id edge = edgeId
                               then normalizeEdge
                                      (edge\<lparr>edge_data :=
                                         Some (mergeData (nullish (edge_data edge) emptyData) d)\<rparr>)
                               else edge)
                     (edges st)\<rparr>"

section \<open>Notions used to state the properties\<close>

text \<open>
  A fully populated relationship: the edge has a data bundle, every field of the bundle is
  present, and the kind is one of the four valid kinds.
\<close>

definition isNormalized :: "DiagramEdge \<Rightarrow> bool" where
  "isNormalized e =
     (case edge_data e of
        None \<Rightarrow> False
      | Some d \<Rightarrow> rel_id d \<noteq> None \<and> rel_source d \<noteq> None \<and> rel_target d \<noteq> None
                  \<and> isRelationshipKind (kind d) \<and> sourceMult d \<noteq> None \<and> targetMult d \<noteq> None
                  \<and> rel_label d \<noteq> None)"

text \<open>
  The identifier fragment as the specification words it: the label lower-cased, every run
  of non-alphanumeric characters collapsed to a single underscore, and \<^verbatim>\<open>relacion\<close>
  when nothing is left. It is compared with \<open>toIdentifier\<close> below.
\<close>

definition alnum_char :: "char \<Rightarrow> bool" where
  "alnum_char c =
     (let n = (of_char c :: nat)
      in (97 \<le> n \<and> n \<le> 122) \<or> (65 \<le> n \<and> n \<le> 90) \<or> (48 \<le> n \<and> n \<le> 57))"

function collapse_non_alnum :: "string \<Rightarrow> string" where
  "collapse_non_alnum [] = []"
| "collapse_non_alnum (c # cs) =
     (if alnum_char c then c # collapse_non_alnum cs
      else CHR ''_'' # collapse_non_alnum (dropWhile (\<lambda>x. \<not> alnum_char x) cs))"
  by pat_completeness auto
termination
  by (relation "measure length") (auto simp: length_dropWhile_le less_Suc_eq_le)

definition toIdentifier_spec :: "string \<Rightarrow> string" where
  "toIdentifier_spec v =
     (let r = collapse_non_alnum (toLowerCase v)
      in if r = [] then ''relacion'' else r)"

text \<open>
  The identifier fragment read off character by character: after trimming and
  lower-casing, a white-space character gives one underscore if it opens a run of white
  space and nothing if it continues one, a character of \<^verbatim>\<open>[a-z0-9_]\<close> gives itself,
  and any other character gives nothing and ends the run; \<^verbatim>\<open>relacion\<close> when nothing
  is left. The flag tells whether the character before was white space.
\<close>

fun fragment_chars :: "bool \<Rightarrow> string \<Rightarrow> string" where
  "fragment_chars after_space [] = []"
| "fragment_chars after_space (c # cs) =
     (if is_space c
      then (if after_space then fragment_chars True cs else CHR ''_'' # fragment_chars True cs)
      else if ident_char c then c # fragment_chars False cs
      else fragment_chars False cs)"

definition fragment_by_char :: "string \<Rightarrow> string" where
  "fragment_by_char v =
     (let r = fragment_chars False (toLowerCase (trim v))
      in if r = [] then ''relacion'' else r)"

text \<open>
  The reconciliation of the history cache as the specification words it, for a call that
  succeeded: with a pointer and a response that reports that same id the cached entry is
  patched in place, otherwise the cache is the list fetched from the history service.
  It is compared with \<open>handleGenerate\<close> below.
\<close>

definition reconcile_spec ::
  "int option \<Rightarrow> int option \<Rightarrow> string \<Rightarrow> DiagramGraph \<Rightarrow> PromptHistoryEntry list
     \<Rightarrow> PromptHistoryEntry list \<Rightarrow> PromptHistoryEntry list" where
  "reconcile_spec pointer reported newPrompt graph cached fetched =
     (case pointer of
        Some a \<Rightarrow> if reported = Some a then patchHistory a (\<lambda>entry. newPrompt) graph cached
                  else fetched
      | None \<Rightarrow> fetched)"

text \<open>
  The partial update of a node's data as the specification words it: the fields that the
  patch supplies change, the others are kept.
\<close>

definition patchNodeData :: "NodeDataPatch \<Rightarrow> DatabaseNodeData \<Rightarrow> DatabaseNodeData" where
  "patchNodeData p d =
     \<lparr>label = nullish (patch_label p) (label d),
      columns = nullish (patch_columns p) (columns d),
      isJoin = orElse (patch_isJoin p) (isJoin d),
      joinOf = orElse (patch_joinOf p) (joinOf d)\<rparr>"

text \<open>The ids of a list of nodes and of a list of edges.\<close>

definition nodeIds :: "DiagramNode list \<Rightarrow> string list" where
  "nodeIds ns = map node_id ns"

definition edgeIds :: "DiagramEdge list \<Rightarrow> string list" where
  "edgeIds es = map edge_id es"

section \<open>Example states\<close>

text \<open>Small concrete inputs on which the properties below are evaluated.\<close>

definition exNode :: "string \<Rightarrow> string \<Rightarrow> rat \<Rightarrow> rat \<Rightarrow> DiagramNode" where
  "exNode i l px py =
     \<lparr>node_id = i, node_type = Some ''databaseNode'', position = \<lparr>pos_x = px, pos_y = py\<rparr>,
      node_data = \<lparr>label = l, columns = [pkColumn (i @ ''-id'') ''id'' ''INT'' False],
                   isJoin = None, joinOf = None\<rparr>\<rparr>"

definition exBareEdge :: "string \<Rightarrow> string \<Rightarrow> string \<Rightarrow> DiagramEdge" where
  "exBareEdge i s t =
     \<lparr>edge_id = i, edge_source = s, edge_target = t, sourceHandle = None, targetHandle = None,
      edge_label = None, edge_data = None\<rparr>"

text \<open>Three entities; \<^verbatim>\<open>Pedido\<close> is referenced by three of the four relationships.\<close>

definition exShop :: DiagramState where
  "exShop =
     \<lparr>nodes = [exNode ''n-cliente'' ''Cliente'' 100 100, exNode ''n-pedido'' ''Pedido'' 300 160,
               exNode ''n-producto'' ''Producto'' 500 100],
      edges = [buildEdge ''e1'' ''n-cliente'' ''n-pedido'' ''1'' ''*'' ''simple'' [],
               buildEdge ''e2'' ''n-pedido'' ''n-producto'' ''*'' ''*'' ''segmentada'' [],
               buildEdge ''e3'' ''n-pedido'' ''n-pedido'' ''1'' ''0..1'' ''flechaNegra'' [],
               buildEdge ''e4'' ''n-cliente'' ''n-producto'' ''1'' ''*'' ''simple'' []],
      selectedRelationshipKind = ''simple'', selectedSourceMult = ''1'',
      selectedTargetMult = ''*''\<rparr>"

text \<open>A relationship as an external producer may send it: kind unknown, one multiplicity.\<close>

definition exPartialEdge :: DiagramEdge where
  "exPartialEdge =
     \<lparr>edge_id = ''e9'', edge_source = ''a'', edge_target = ''b'', sourceHandle = None,
      targetHandle = None, edge_label = Some ''tiene'',
      edge_data = Some (emptyData\<lparr>rel_source := Some ''a2'', kind := Some ''dotted'',
                                  targetMult := Some ''0..1''\<rparr>)\<rparr>"

text \<open>A store that holds one join entity, as the many-to-many path creates it.\<close>

definition exJoinNode :: DiagramNode where
  "exJoinNode =
     \<lparr>node_id = ''join-a-b-1'', node_type = Some ''databaseNode'',
      position = \<lparr>pos_x = 200, pos_y = 300\<rparr>,
      node_data = \<lparr>label = ''Cliente_Pedido'',
                   columns = [pkColumn ''c1'' ''id'' ''INT'' False,
                              column ''c2'' ''cliente_id'' ''INT'' False,
                              column ''c3'' ''pedido_id'' ''INT'' False],
                   isJoin = Some True, joinOf = Some (''Cliente'', ''Pedido'')\<rparr>\<rparr>"

definition exJoinStore :: DiagramState where
  "exJoinStore =
     \<lparr>nodes = [exNode ''a'' ''Cliente'' 100 100, exJoinNode], edges = [],
      selectedRelationshipKind = ''simple'', selectedSourceMult = ''1'',
      selectedTargetMult = ''*''\<rparr>"

text \<open>
  The three entities with the dashed kind and both multiplicities \<^verbatim>\<open>*\<close> selected, and a
  gesture from \<^verbatim>\<open>Cliente\<close> to \<^verbatim>\<open>Pedido\<close>.
\<close>

definition exManyToMany :: DiagramState where
  "exManyToMany =
     \<lparr>nodes = [exNode ''n-cliente'' ''Cliente'' 100 100, exNode ''n-pedido'' ''Pedido'' 300 160,
               exNode ''n-producto'' ''Producto'' 500 100],
      edges = [buildEdge ''e4'' ''n-cliente'' ''n-producto'' ''1'' ''*'' ''simple'' []],
      selectedRelationshipKind = ''segmentada'', selectedSourceMult = ''*'',
      selectedTargetMult = ''*''\<rparr>"

definition exGesture :: Connection where
  "exGesture =
     \<lparr>conn_source = Some ''n-cliente'', conn_target = Some ''n-pedido'',
      conn_sourceHandle = None, conn_targetHandle = None\<rparr>"

text \<open>
  The coordinates of the examples are integers, and so are their sums and halves; on
  integers below \<open>2^53\<close> the rounding to a double changes nothing.
\<close>

definition exactRounding :: "rat \<Rightarrow> rat" where
  "exactRounding x = x"

text \<open>
  The store after that gesture, made within the millisecond 1700000000000: both readings
  of the clock in the handler give that value.
\<close>

definition exAfterGesture :: DiagramState where
  "exAfterGesture = onConnect exactRounding 1700000000000 1700000000000 exGesture exManyToMany"

text \<open>
  A chat panel with two cached history entries, the newer one (id 7) active, a prompt in
  the buffer and the three entities on the canvas; and the same history as the history
  service lists it after a further entry (id 8) was created.
\<close>

definition exEntry :: "int \<Rightarrow> string \<Rightarrow> PromptHistoryEntry" where
  "exEntry i p =
     \<lparr>h_id = i, userId = 1, h_prompt = p, h_graph = buildDefaultDiagram,
      createdAt = ''2024-05-01T10:00:00''\<rparr>"

definition exItem :: "int \<Rightarrow> string \<Rightarrow> ApiHistoryItem" where
  "exItem i p =
     \<lparr>api_id = i, user_id = 1, api_prompt = p, api_graph = buildDefaultDiagram,
      created_at = ''2024-05-01T10:00:00''\<rparr>"

definition exChat :: ChatState where
  "exChat =
     \<lparr>prompt = ''Agrega la tabla Comentario'', isLoading = False, error = None,
      history = [exEntry 7 ''Crea tablas Usuario y Post'', exEntry 3 ''Tienda''],
      isHistoryLoading = False, historyError = None, deletingId = None,
      isClearingHistory = False, activeHistoryId = Some 7, activeHistoryIdRef = Some 7,
      store = exShop\<rparr>"

definition exListing :: "ApiHistoryItem list" where
  "exListing =
     [exItem 8 ''Agrega la tabla Comentario'', exItem 7 ''Crea tablas Usuario y Post'',
      exItem 3 ''Tienda'']"

definition exResponse :: GenerateResponse where
  "exResponse =
     \<lparr>resp_nodes = Some [exNode ''n-comentario'' ''Comentario'' 40 40], resp_edges = Some []\<rparr>"

text \<open>The answer of the vision service to an uploaded diagram, reporting history entry 9.\<close>

definition exVision :: VisionResponse where
  "exVision =
     \<lparr>v_graph = buildDefaultDiagram, v_history_id = Some 9,
      v_prompt = Some ''Diagrama importado''\<rparr>"

text \<open>
  A store in which two entities share the id \<^verbatim>\<open>n-pedido\<close>, as a bulk replacement can
  leave it.
\<close>

definition exDuplicated :: DiagramState where
  "exDuplicated =
     exManyToMany\<lparr>nodes := [exNode ''n-cliente'' ''Cliente'' 100 100,
                             exNode ''n-pedido'' ''Pedido'' 300 160,
                             exNode ''n-pedido'' ''Pedido2'' 500 100]\<rparr>"

section \<open>Properties of the diagram store\<close>

text \<open>
  C1. For every store state and every entity id \<open>E\<close>, \<open>removeNode E\<close> is one transition
  of the store that keeps exactly the nodes whose id is not \<open>E\<close> and exactly the
  relationships whose source and target are both different from \<open>E\<close>, each in its old
  order and unchanged; so the node \<open>E\<close> and every relationship that touches \<open>E\<close> are
  gone, every other node and relationship is still there, and afterwards no relationship
  of the store has source \<open>E\<close> or target \<open>E\<close>. The tool selection is untouched. Source and
  target are the fields of the edge itself, which is what the store tests.
\<close>

theorem removeNode_cascade:
  "nodes (removeNode E st) = filter (\<lambda>n. node_id n \<noteq> E) (nodes st)
   \<and> edges (removeNode E st)
       = filter (\<lambda>e. \<not> (edge_source e = E \<or> edge_target e = E)) (edges st)
   \<and> (\<forall>n. n \<in> set (nodes (removeNode E st)) \<longleftrightarrow> n \<in> set (nodes st) \<and> node_id n \<noteq> E)
   \<and> (\<forall>e. e \<in> set (edges (removeNode E st))
            \<longleftrightarrow> e \<in> set (edges st) \<and> edge_source e \<noteq> E \<and> edge_target e \<noteq> E)
   \<and> (\<forall>e \<in> set (edges (removeNode E st)). edge_source e \<noteq> E \<and> edge_target e \<noteq> E)
   \<and> E \<notin> set (nodeIds (nodes (removeNode E st)))
   \<and> subseq (nodes (removeNode E st)) (nodes st)
   \<and> subseq (edges (removeNode E st)) (edges st)
   \<and> selectedRelationshipKind (removeNode E st) = selectedRelationshipKind st
   \<and> selectedSourceMult (removeNode E st) = selectedSourceMult st
   \<and> selectedTargetMult (removeNode E st) = selectedTargetMult st"
  by (auto simp: removeNode_def nodeIds_def)

text \<open>
  The scenario of the specification: removing \<^verbatim>\<open>Pedido\<close>, which three relationships
  reference, leaves the two other entities and the one relationship that does not touch it.
\<close>

theorem removeNode_cascade_witness:
  "nodeIds (nodes (removeNode ''n-pedido'' exShop)) = [''n-cliente'', ''n-producto'']
   \<and> edgeIds (edges (removeNode ''n-pedido'' exShop)) = [''e4'']
   \<and> list_all (\<lambda>e. edge_source e \<noteq> ''n-pedido'' \<and> edge_target e \<noteq> ''n-pedido'')
         (edges (removeNode ''n-pedido'' exShop))"
  using removeNode_cascade [of "''n-pedido''" exShop]
  by (simp add: exShop_def exNode_def buildEdge_def nodeIds_def edgeIds_def)

section \<open>Properties of the edge normalizer\<close>

lemma normalizeEdge_isNormalized: "isNormalized (normalizeEdge e)"
  by (simp add: normalizeEdge_def isNormalized_def isRelationshipKind_def KIND_FALLBACK_def Let_def
      split: option.splits)

lemma normalizeEdge_top_level: "normalizeEdge e = e\<lparr>edge_data := edge_data (normalizeEdge e)\<rparr>"
  by (simp add: normalizeEdge_def Let_def)

lemma normalizeEdge_data_fixed:
  assumes "edge_data e = Some d" and "isNormalized e"
  shows "edge_data (normalizeEdge e) = Some d"
proof -
  from assms obtain i s t k sm tm l where f:
    "rel_id d = Some i" "rel_source d = Some s" "rel_target d = Some t" "kind d = Some k"
    "sourceMult d = Some sm" "targetMult d = Some tm" "rel_label d = Some l"
    and k: "isRelationshipKind (Some k)"
    by (auto simp: isNormalized_def isRelationshipKind_def)
  have "d\<lparr>rel_id := Some i, rel_source := Some s, rel_target := Some t, kind := Some k,
          sourceMult := Some sm, targetMult := Some tm, rel_label := Some l\<rparr> = d"
    by (rule RelationshipData.equality) (simp_all add: f)
  then show ?thesis
    using assms(1) k by (simp add: normalizeEdge_def nullish_def f Let_def)
qed

lemma normalizeEdge_fixed:
  assumes "isNormalized e"
  shows "normalizeEdge e = e"
proof -
  from assms obtain d where d: "edge_data e = Some d"
    by (auto simp: isNormalized_def split: option.splits)
  have "edge_data (normalizeEdge e) = edge_data e"
    using normalizeEdge_data_fixed [OF d assms] d by simp
  then show ?thesis
    using normalizeEdge_top_level [of e] by simp
qed

lemma normalizeEdge_no_data:
  assumes "edge_data e = None"
  shows "edge_data (normalizeEdge e)
          = Some \<lparr>rel_id = Some (edge_id e), rel_source = Some (edge_source e),
                  rel_target = Some (edge_target e), kind = Some ''simple'',
                  sourceMult = Some ''1'', targetMult = Some ''*'', rel_label = Some []\<rparr>"
  using assms
  by (simp add: normalizeEdge_def nullish_def emptyData_def KIND_FALLBACK_def Let_def)

lemma normalizeEdge_kind:
  "(case kind d of Some v \<Rightarrow> if isRelationshipKind (Some v) then v else KIND_FALLBACK
    | None \<Rightarrow> KIND_FALLBACK)
   = (case (if kind d \<in> {Some ''simple'', Some ''flechaBlanca'', Some ''flechaNegra'',
                          Some ''segmentada''} then kind d else Some ''simple'') of
        Some v \<Rightarrow> v | None \<Rightarrow> ''simple'')"
  by (cases "kind d") (simp_all add: isRelationshipKind_def KIND_FALLBACK_def)

lemma normalizeEdge_with_data:
  assumes "edge_data e = Some d"
  shows "edge_data (normalizeEdge e)
          = Some \<lparr>rel_id = Some (case rel_id d of Some v \<Rightarrow> v | None \<Rightarrow> edge_id e),
                  rel_source = Some (case rel_source d of Some v \<Rightarrow> v | None \<Rightarrow> edge_source e),
                  rel_target = Some (case rel_target d of Some v \<Rightarrow> v | None \<Rightarrow> edge_target e),
                  kind = (if kind d \<in> {Some ''simple'', Some ''flechaBlanca'',
                                        Some ''flechaNegra'', Some ''segmentada''}
                          then kind d else Some ''simple''),
                  sourceMult = Some (case sourceMult d of Some v \<Rightarrow> v | None \<Rightarrow> ''1''),
                  targetMult = Some (case targetMult d of Some v \<Rightarrow> v | None \<Rightarrow> ''*''),
                  rel_label = Some (case rel_label d of Some v \<Rightarrow> v | None \<Rightarrow> [])\<rparr>"
proof -
  have "edge_data (normalizeEdge e)
          = Some (d\<lparr>rel_id := Some (nullish (rel_id d) (edge_id e)),
                    rel_source := Some (nullish (rel_source d) (edge_source e)),
                    rel_target := Some (nullish (rel_target d) (edge_target e)),
                    kind := Some (case kind d of
                                    Some v \<Rightarrow> if isRelationshipKind (Some v) then v else KIND_FALLBACK
                                  | None \<Rightarrow> KIND_FALLBACK),
                    sourceMult := Some (nullish (sourceMult d) ''1''),
                    targetMult := Some (nullish (targetMult d) ''*''),
                    rel_label := Some (nullish (rel_label d) [])\<rparr>)"
    using assms by (simp add: normalizeEdge_def Let_def nullish_def)
  also have "\<dots> = Some \<lparr>rel_id = Some (nullish (rel_id d) (edge_id e)),
                    rel_source = Some (nullish (rel_source d) (edge_source e)),
                    rel_target = Some (nullish (rel_target d) (edge_target e)),
                    kind = Some (case kind d of
                                    Some v \<Rightarrow> if isRelationshipKind (Some v) then v else KIND_FALLBACK
                                  | None \<Rightarrow> KIND_FALLBACK),
                    sourceMult = Some (nullish (sourceMult d) ''1''),
                    targetMult = Some (nullish (targetMult d) ''*''),
                    rel_label = Some (nullish (rel_label d) [])\<rparr>"
    by (cases d) simp
  finally show ?thesis
    unfolding normalizeEdge_kind
    by (cases "kind d") (simp_all add: nullish_def)
qed

lemma list_all_normalized_map: "list_all isNormalized (map normalizeEdge es)"
  by (simp add: list_all_iff normalizeEdge_isNormalized)

text \<open>
  C3. For every relationship \<open>e\<close>, whatever fields it lacks, \<open>normalizeEdge e\<close> is fully
  populated: it has a data bundle in which every field is present and whose kind is one
  of the four valid kinds; the fields of the edge itself are untouched. Without a data
  bundle the result is id, source and target of the edge, kind \<^verbatim>\<open>simple\<close>,
  multiplicities \<^verbatim>\<open>1\<close> and \<^verbatim>\<open>*\<close> and the empty label. With a data bundle \<open>d\<close>, id,
  source and target are those of \<open>d\<close> when present and those of the edge otherwise, the
  kind is that of \<open>d\<close> when it is one of the four and \<^verbatim>\<open>simple\<close> otherwise, and the
  multiplicities and the label are those of \<open>d\<close> when present and \<^verbatim>\<open>1\<close>, \<^verbatim>\<open>*\<close> and the
  empty string otherwise. Every write path of the store hands on normalized
  relationships: \<open>setGraph\<close>, \<open>setEdges\<close> and \<open>addEdges\<close> leave only normalized ones, and
  \<open>updateEdge\<close> and \<open>updateEdgeData\<close> normalize the relationship they touch.
\<close>

theorem normalizeEdge_fully_populated:
  "isNormalized (normalizeEdge e)
   \<and> (\<exists>d'. edge_data (normalizeEdge e) = Some d'
         \<and> kind d' \<in> {Some ''simple'', Some ''flechaBlanca'', Some ''flechaNegra'',
                       Some ''segmentada''}
         \<and> rel_id d' \<noteq> None \<and> rel_source d' \<noteq> None \<and> rel_target d' \<noteq> None
         \<and> sourceMult d' \<noteq> None \<and> targetMult d' \<noteq> None \<and> rel_label d' \<noteq> None)
   \<and> normalizeEdge e = e\<lparr>edge_data := edge_data (normalizeEdge e)\<rparr>
   \<and> (edge_data e = None \<longrightarrow>
        edge_data (normalizeEdge e)
          = Some \<lparr>rel_id = Some (edge_id e), rel_source = Some (edge_source e),
                  rel_target = Some (edge_target e), kind = Some ''simple'',
                  sourceMult = Some ''1'', targetMult = Some ''*'', rel_label = Some []\<rparr>)
   \<and> (\<forall>d. edge_data e = Some d \<longrightarrow>
        edge_data (normalizeEdge e)
          = Some \<lparr>rel_id = Some (case rel_id d of Some v \<Rightarrow> v | None \<Rightarrow> edge_id e),
                  rel_source = Some (case rel_source d of Some v \<Rightarrow> v | None \<Rightarrow> edge_source e),
                  rel_target = Some (case rel_target d of Some v \<Rightarrow> v | None \<Rightarrow> edge_target e),
                  kind = (if kind d \<in> {Some ''simple'', Some ''flechaBlanca'',
                                        Some ''flechaNegra'', Some ''segmentada''}
                          then kind d else Some ''simple''),
                  sourceMult = Some (case sourceMult d of Some v \<Rightarrow> v | None \<Rightarrow> ''1''),
                  targetMult = Some (case targetMult d of Some v \<Rightarrow> v | None \<Rightarrow> ''*''),
                  rel_label = Some (case rel_label d of Some v \<Rightarrow> v | None \<Rightarrow> [])\<rparr>)
   \<and> list_all isNormalized (edges (setGraph g st))
   \<and> list_all isNormalized (edges (setEdges es st))
   \<and> list_all isNormalized (edges (addEdges es st))
   \<and> list_all (\<lambda>x. edge_id x = i \<longrightarrow> isNormalized x) (edges (updateEdge i u st))
   \<and> list_all (\<lambda>x. edge_id x = i \<longrightarrow> isNormalized x) (edges (updateEdgeData i dp st))"
proof -
  have n: "isNormalized (normalizeEdge e)"
    by (rule normalizeEdge_isNormalized)
  then have ex: "\<exists>d'. edge_data (normalizeEdge e) = Some d'
         \<and> kind d' \<in> {Some ''simple'', Some ''flechaBlanca'', Some ''flechaNegra'',
                       Some ''segmentada''}
         \<and> rel_id d' \<noteq> None \<and> rel_source d' \<noteq> None \<and> rel_target d' \<noteq> None
         \<and> sourceMult d' \<noteq> None \<and> targetMult d' \<noteq> None \<and> rel_label d' \<noteq> None"
    by (cases "edge_data (normalizeEdge e)")
       (simp_all add: isNormalized_def isRelationshipKind_def)
  have u1: "list_all (\<lambda>x. edge_id x = i \<longrightarrow> isNormalized x) (edges (updateEdge i u st))"
    by (auto simp: updateEdge_def list_all_iff normalizeEdge_isNormalized)
  have u2: "list_all (\<lambda>x. edge_id x = i \<longrightarrow> isNormalized x) (edges (updateEdgeData i dp st))"
    by (auto simp: updateEdgeData_def list_all_iff normalizeEdge_isNormalized)
  have s1: "list_all isNormalized (edges (setGraph g st))"
    by (simp add: setGraph_def list_all_normalized_map)
  have s2: "list_all isNormalized (edges (setEdges es st))"
    by (simp add: setEdges_def list_all_normalized_map)
  have s3: "list_all isNormalized (edges (addEdges es st))"
    unfolding addEdges_def Let_def
    by (simp del: map_map add: list_all_normalized_map)
  have nd: "edge_data e = None \<longrightarrow>
        edge_data (normalizeEdge e)
          = Some \<lparr>rel_id = Some (edge_id e), rel_source = Some (edge_source e),
                  rel_target = Some (edge_target e), kind = Some ''simple'',
                  sourceMult = Some ''1'', targetMult = Some ''*'', rel_label = Some []\<rparr>"
    using normalizeEdge_no_data [of e] by (rule impI)
  have wd: "\<forall>d. edge_data e = Some d \<longrightarrow>
        edge_data (normalizeEdge e)
          = Some \<lparr>rel_id = Some (case rel_id d of Some v \<Rightarrow> v | None \<Rightarrow> edge_id e),
                  rel_source = Some (case rel_source d of Some v \<Rightarrow> v | None \<Rightarrow> edge_source e),
                  rel_target = Some (case rel_target d of Some v \<Rightarrow> v | None \<Rightarrow> edge_target e),
                  kind = (if kind d \<in> {Some ''simple'', Some ''flechaBlanca'',
                                        Some ''flechaNegra'', Some ''segmentada''}
                          then kind d else Some ''simple''),
                  sourceMult = Some (case sourceMult d of Some v \<Rightarrow> v | None \<Rightarrow> ''1''),
                  targetMult = Some (case targetMult d of Some v \<Rightarrow> v | None \<Rightarrow> ''*''),
                  rel_label = Some (case rel_label d of Some v \<Rightarrow> v | None \<Rightarrow> [])\<rparr>"
    using normalizeEdge_with_data [of e] by (intro allI impI)
  show ?thesis
    using n ex normalizeEdge_top_level [of e] nd wd s1 s2 s3 u1 u2
    by (intro conjI)
qed

text \<open>
  The scenario of the specification, an edge with source and target only, and an edge
  whose data bundle has an unknown kind and one multiplicity.
\<close>

theorem normalizeEdge_fully_populated_witness:
  "edge_data (exBareEdge ''e1'' ''a'' ''b'') = None
   \<and> edge_data (normalizeEdge (exBareEdge ''e1'' ''a'' ''b''))
       = Some \<lparr>rel_id = Some ''e1'', rel_source = Some ''a'', rel_target = Some ''b'',
               kind = Some ''simple'', sourceMult = Some ''1'', targetMult = Some ''*'',
               rel_label = Some []\<rparr>
   \<and> edge_data (normalizeEdge exPartialEdge)
       = Some \<lparr>rel_id = Some ''e9'', rel_source = Some ''a2'', rel_target = Some ''b'',
               kind = Some ''simple'', sourceMult = Some ''1'', targetMult = Some ''0..1'',
               rel_label = Some []\<rparr>"
proof -
  have bare: "edge_data (exBareEdge ''e1'' ''a'' ''b'') = None"
    by (simp add: exBareEdge_def)
  have partial: "edge_data exPartialEdge
      = Some (emptyData\<lparr>rel_source := Some ''a2'', kind := Some ''dotted'',
                         targetMult := Some ''0..1''\<rparr>)"
    by (simp add: exPartialEdge_def)
  note b = normalizeEdge_fully_populated [of "exBareEdge ''e1'' ''a'' ''b''",
      THEN conjunct2, THEN conjunct2, THEN conjunct2, THEN conjunct1, rule_format, OF bare]
  note p = normalizeEdge_fully_populated [of exPartialEdge,
      THEN conjunct2, THEN conjunct2, THEN conjunct2, THEN conjunct2, THEN conjunct1,
      rule_format, OF partial]
  have b': "edge_data (normalizeEdge (exBareEdge ''e1'' ''a'' ''b''))
       = Some \<lparr>rel_id = Some ''e1'', rel_source = Some ''a'', rel_target = Some ''b'',
               kind = Some ''simple'', sourceMult = Some ''1'', targetMult = Some ''*'',
               rel_label = Some []\<rparr>"
    unfolding b by (simp add: exBareEdge_def)
  have p': "edge_data (normalizeEdge exPartialEdge)
       = Some \<lparr>rel_id = Some ''e9'', rel_source = Some ''a2'', rel_target = Some ''b'',
               kind = Some ''simple'', sourceMult = Some ''1'', targetMult = Some ''0..1'',
               rel_label = Some []\<rparr>"
    unfolding p by (simp add: exPartialEdge_def emptyData_def)
  show ?thesis
    using bare b' p' by (intro conjI)
qed

text \<open>
  C4. The normalizer is a function of its argument alone, and it is idempotent:
  normalizing twice is normalizing once. A relationship is left as it is exactly when it
  is fully populated already, so normalizing a normalized relationship returns its input.
\<close>

theorem normalizeEdge_idempotent:
  "normalizeEdge (normalizeEdge e) = normalizeEdge e
   \<and> (isNormalized e \<longrightarrow> normalizeEdge e = e)
   \<and> (normalizeEdge e = e \<longrightarrow> isNormalized e)"
proof -
  have "normalizeEdge e = e \<Longrightarrow> isNormalized e"
    using normalizeEdge_isNormalized [of e] by simp
  then show ?thesis
    using normalizeEdge_fixed [of e] normalizeEdge_fixed [OF normalizeEdge_isNormalized [of e]]
    by blast
qed

theorem normalizeEdge_idempotent_witness:
  "normalizeEdge (normalizeEdge exPartialEdge) = normalizeEdge exPartialEdge
   \<and> normalizeEdge exPartialEdge \<noteq> exPartialEdge
   \<and> isNormalized (buildEdge ''e1'' ''a'' ''b'' ''1'' ''*'' ''simple'' [])
   \<and> normalizeEdge (buildEdge ''e1'' ''a'' ''b'' ''1'' ''*'' ''simple'' [])
       = buildEdge ''e1'' ''a'' ''b'' ''1'' ''*'' ''simple'' []"
proof -
  have n: "isNormalized (buildEdge ''e1'' ''a'' ''b'' ''1'' ''*'' ''simple'' [])"
    by (simp add: isNormalized_def buildEdge_def isRelationshipKind_def)
  have d: "normalizeEdge exPartialEdge \<noteq> exPartialEdge"
    by (simp add: normalizeEdge_def exPartialEdge_def emptyData_def nullish_def Let_def)
  note i1 = normalizeEdge_idempotent [of exPartialEdge, THEN conjunct1]
  note i2 = normalizeEdge_idempotent [of "buildEdge ''e1'' ''a'' ''b'' ''1'' ''*'' ''simple'' []",
      THEN conjunct2, THEN conjunct1, rule_format, OF n]
  show ?thesis
    using i1 d n i2 by (intro conjI)
qed

section \<open>Properties of the update of node data\<close>

text \<open>
  C7, as the code has it. \<open>updateNodeData nodeId d\<close> replaces the whole data bundle of
  every node whose id is \<open>nodeId\<close> by \<open>d\<close> and keeps the id, the type and the position of
  that node; every node with another id, the order and the number of the nodes, the
  relationships and the tool selection are unchanged; and when no node has the id the
  state is unchanged. The bundle is not merged with the old one.
\<close>

theorem updateNodeData_replaces:
  "length (nodes (updateNodeData nodeId d st)) = length (nodes st)
   \<and> (\<forall>k < length (nodes st).
         nodes (updateNodeData nodeId d st) ! k
           = (if node_id (nodes st ! k) = nodeId then (nodes st ! k)\<lparr>node_data := d\<rparr>
              else nodes st ! k))
   \<and> nodeIds (nodes (updateNodeData nodeId d st)) = nodeIds (nodes st)
   \<and> map position (nodes (updateNodeData nodeId d st)) = map position (nodes st)
   \<and> map node_type (nodes (updateNodeData nodeId d st)) = map node_type (nodes st)
   \<and> edges (updateNodeData nodeId d st) = edges st
   \<and> selectedRelationshipKind (updateNodeData nodeId d st) = selectedRelationshipKind st
   \<and> selectedSourceMult (updateNodeData nodeId d st) = selectedSourceMult st
   \<and> selectedTargetMult (updateNodeData nodeId d st) = selectedTargetMult st
   \<and> (nodeId \<notin> set (nodeIds (nodes st)) \<longrightarrow> updateNodeData nodeId d st = st)"
proof -
  have absent: "nodeId \<notin> set (nodeIds (nodes st)) \<longrightarrow> updateNodeData nodeId d st = st"
  proof
    assume "nodeId \<notin> set (nodeIds (nodes st))"
    then have "map (\<lambda>n. if node_id n = nodeId then n\<lparr>node_data := d\<rparr> else n) (nodes st)
                = nodes st"
      by (intro map_idI) (auto simp: nodeIds_def)
    then show "updateNodeData nodeId d st = st"
      by (simp add: updateNodeData_def)
  qed
  have ids: "nodeIds (nodes (updateNodeData nodeId d st)) = nodeIds (nodes st)"
    by (simp add: updateNodeData_def nodeIds_def)
  have pos: "map position (nodes (updateNodeData nodeId d st)) = map position (nodes st)"
    by (simp add: updateNodeData_def)
  have tys: "map node_type (nodes (updateNodeData nodeId d st)) = map node_type (nodes st)"
    by (simp add: updateNodeData_def)
  have nth: "\<forall>k < length (nodes st).
         nodes (updateNodeData nodeId d st) ! k
           = (if node_id (nodes st ! k) = nodeId then (nodes st ! k)\<lparr>node_data := d\<rparr>
              else nodes st ! k)"
    by (simp add: updateNodeData_def)
  have rest: "length (nodes (updateNodeData nodeId d st)) = length (nodes st)"
    "edges (updateNodeData nodeId d st) = edges st"
    "selectedRelationshipKind (updateNodeData nodeId d st) = selectedRelationshipKind st"
    "selectedSourceMult (updateNodeData nodeId d st) = selectedSourceMult st"
    "selectedTargetMult (updateNodeData nodeId d st) = selectedTargetMult st"
    by (simp_all add: updateNodeData_def)
  show ?thesis
    using rest(1) nth ids pos tys rest(2-5) absent by (intro conjI)
qed

text \<open>
  On the store with the join entity: saving a new label replaces the bundle of the join
  entity, the other entity is as before, and an id that no node has changes nothing.
\<close>

theorem updateNodeData_replaces_witness:
  "(1::nat) < length (nodes exJoinStore)
   \<and> nodes (updateNodeData ''join-a-b-1''
        \<lparr>label = ''Inscripcion'', columns = [], isJoin = None, joinOf = None\<rparr> exJoinStore) ! 1
       = exJoinNode\<lparr>node_data :=
           \<lparr>label = ''Inscripcion'', columns = [], isJoin = None, joinOf = None\<rparr>\<rparr>
   \<and> ''zz'' \<notin> set (nodeIds (nodes exJoinStore))
   \<and> updateNodeData ''zz''
        \<lparr>label = ''Inscripcion'', columns = [], isJoin = None, joinOf = None\<rparr> exJoinStore
       = exJoinStore"
proof -
  have len: "(1::nat) < length (nodes exJoinStore)"
    by (simp add: exJoinStore_def)
  have absent: "''zz'' \<notin> set (nodeIds (nodes exJoinStore))"
    by (simp add: exJoinStore_def nodeIds_def exNode_def exJoinNode_def)
  note t = updateNodeData_replaces [of "''join-a-b-1''"
      "\<lparr>label = ''Inscripcion'', columns = [], isJoin = None, joinOf = None\<rparr>" exJoinStore,
      THEN conjunct2, THEN conjunct1, rule_format, OF len]
  note z = updateNodeData_replaces [of "''zz''"
      "\<lparr>label = ''Inscripcion'', columns = [], isJoin = None, joinOf = None\<rparr>" exJoinStore,
      THEN conjunct2, THEN conjunct2, THEN conjunct2, THEN conjunct2, THEN conjunct2,
      THEN conjunct2, THEN conjunct2, THEN conjunct2, THEN conjunct2, rule_format, OF absent]
  have t': "nodes (updateNodeData ''join-a-b-1''
        \<lparr>label = ''Inscripcion'', columns = [], isJoin = None, joinOf = None\<rparr> exJoinStore) ! 1
       = exJoinNode\<lparr>node_data :=
           \<lparr>label = ''Inscripcion'', columns = [], isJoin = None, joinOf = None\<rparr>\<rparr>"
    unfolding t by (simp add: exJoinStore_def exJoinNode_def)
  show ?thesis
    using len t' absent z by (intro conjI)
qed

text \<open>
  The wording of the specification fails on the code: saving the table editor on a join entity
  hands \<open>updateNodeData\<close> a bundle with a label and columns only, and the entity loses
  \<open>isJoin\<close> and \<open>joinOf\<close>, which a partial update would have kept.
\<close>

theorem updateNodeData_partial_counterexample:
  "map (\<lambda>n. isJoin (node_data n)) (nodes exJoinStore) = [None, Some True]
   \<and> map (\<lambda>n. isJoin (node_data n))
        (nodes (handleSaveTable (Some exJoinNode) ''Inscripcion'' [] exJoinStore))
       = [None, None]
   \<and> map (\<lambda>n. joinOf (node_data n))
        (nodes (handleSaveTable (Some exJoinNode) ''Inscripcion'' [] exJoinStore))
       = [None, None]
   \<and> map node_data (nodes (handleSaveTable (Some exJoinNode) ''Inscripcion'' [] exJoinStore))
       \<noteq> map (\<lambda>n. if node_id n = ''join-a-b-1''
                     then patchNodeData \<lparr>patch_label = Some ''Inscripcion'',
                            patch_columns = Some [], patch_isJoin = None, patch_joinOf = None\<rparr>
                            (node_data n)
                     else node_data n) (nodes exJoinStore)"
  by (simp add: handleSaveTable_def updateNodeData_def exJoinStore_def exJoinNode_def exNode_def
      patchNodeData_def nullish_def orElse_def)

section \<open>Properties of the connection gesture\<close>

lemma map_set_fresh: "k \<notin> fst ` set m \<Longrightarrow> map_set m k v = m @ [(k, v)]"
  by (induction m) auto

lemma map_of_fresh: "k \<notin> fst ` set m \<Longrightarrow> map_of m k = None"
  by (simp add: map_of_eq_None_iff)

lemma foldl_map_set_distinct:
  "distinct (map f xs) \<Longrightarrow> set (map f xs) \<inter> fst ` set acc = {}
   \<Longrightarrow> foldl (\<lambda>m n. map_set m (f n) n) acc xs = acc @ map (\<lambda>n. (f n, n)) xs"
proof (induction xs arbitrary: acc)
  case Nil
  then show ?case by simp
next
  case (Cons x xs)
  have fresh: "f x \<notin> fst ` set acc"
    using Cons.prems(2) by auto
  have "set (map f xs) \<inter> fst ` set (acc @ [(f x, x)]) = {}"
    using Cons.prems by auto
  then have "foldl (\<lambda>m n. map_set m (f n) n) (acc @ [(f x, x)]) xs
              = (acc @ [(f x, x)]) @ map (\<lambda>n. (f n, n)) xs"
    using Cons.IH Cons.prems(1) by simp
  then show ?case
    by (simp add: map_set_fresh [OF fresh])
qed

lemma map_set_keys: "fst ` set (map_set m k v) = insert k (fst ` set m)"
  by (induction m) (auto split: if_splits simp: rev_image_eqI)

lemma map_set_entries: "set (map_set m k v) \<subseteq> insert (k, v) (set m)"
  by (induction m) (auto split: if_splits)

lemma foldl_map_set_keys:
  "fst ` set (foldl (\<lambda>m n. map_set m (f n) n) acc xs) = fst ` set acc \<union> f ` set xs"
  by (induction xs arbitrary: acc) (auto simp: map_set_keys)

lemma foldl_map_set_keyed:
  "\<forall>p \<in> set acc. f (snd p) = fst p
   \<Longrightarrow> \<forall>p \<in> set (foldl (\<lambda>m n. map_set m (f n) n) acc xs). f (snd p) = fst p"
proof (induction xs arbitrary: acc)
  case Nil
  then show ?case by simp
next
  case (Cons x xs)
  have "\<forall>p \<in> set (map_set acc (f x) x). f (snd p) = fst p"
    using Cons.prems map_set_entries [of acc "f x" x] by auto
  then show ?case
    using Cons.IH by simp
qed

text \<open>
  The entries that the store keeps of its own list when it merges: one per id. With
  unique ids that is the list itself.
\<close>

lemma addNodes_kept:
  "set (nodeIds (nodes (addNodes [] st))) = set (nodeIds (nodes st))"
  "distinct (nodeIds (nodes st)) \<Longrightarrow> nodes (addNodes [] st) = nodes st"
proof -
  define m where "m = foldl (\<lambda>m n. map_set m (node_id n) n) [] (nodes st)"
  have k: "fst ` set m = node_id ` set (nodes st)"
    unfolding m_def using foldl_map_set_keys [of node_id "[]" "nodes st"] by simp
  have "\<forall>p \<in> set m. node_id (snd p) = fst p"
    unfolding m_def by (rule foldl_map_set_keyed) simp
  then have "map node_id (map snd m) = map fst m"
    by simp
  then have "set (nodeIds (map snd m)) = node_id ` set (nodes st)"
    unfolding nodeIds_def using k by simp
  then show "set (nodeIds (nodes (addNodes [] st))) = set (nodeIds (nodes st))"
    by (simp add: addNodes_def Let_def m_def nodeIds_def)
  show "nodes (addNodes [] st) = nodes st" if "distinct (nodeIds (nodes st))"
    using foldl_map_set_distinct [of node_id "nodes st" "[]"] that
    by (simp add: addNodes_def Let_def nodeIds_def comp_def)
qed

lemma addNodes_fresh:
  assumes "node_id n \<notin> set (nodeIds (nodes st))"
  shows "addNodes [n] st = st\<lparr>nodes := nodes (addNodes [] st) @ [n]\<rparr>"
proof -
  define m where "m = foldl (\<lambda>m n. map_set m (node_id n) n) [] (nodes st)"
  have "fst ` set m = node_id ` set (nodes st)"
    unfolding m_def using foldl_map_set_keys [of node_id "[]" "nodes st"] by simp
  then have fresh: "node_id n \<notin> fst ` set m"
    using assms by (simp add: nodeIds_def)
  show ?thesis
    unfolding addNodes_def Let_def m_def [symmetric]
    by (simp add: map_of_fresh [OF fresh] map_set_fresh [OF fresh])
qed

lemma normalizeEdge_id: "edge_id (normalizeEdge e) = edge_id e"
  by (simp add: normalizeEdge_def Let_def)

lemma addEdges_kept:
  "set (edgeIds (edges (addEdges [] st))) = set (edgeIds (edges st))"
  "distinct (edgeIds (edges st)) \<Longrightarrow> edges (addEdges [] st) = map normalizeEdge (edges st)"
proof -
  define m where "m = foldl (\<lambda>m e. map_set m (edge_id e) e) [] (edges st)"
  have k: "fst ` set m = edge_id ` set (edges st)"
    unfolding m_def using foldl_map_set_keys [of edge_id "[]" "edges st"] by simp
  have "\<forall>p \<in> set m. edge_id (snd p) = fst p"
    unfolding m_def by (rule foldl_map_set_keyed) simp
  then have "map edge_id (map normalizeEdge (map snd m)) = map fst m"
    by (simp add: normalizeEdge_id)
  then have "set (edgeIds (map normalizeEdge (map snd m))) = edge_id ` set (edges st)"
    unfolding edgeIds_def using k by simp
  then show "set (edgeIds (edges (addEdges [] st))) = set (edgeIds (edges st))"
    by (simp add: addEdges_def Let_def m_def edgeIds_def)
  show "edges (addEdges [] st) = map normalizeEdge (edges st)"
    if "distinct (edgeIds (edges st))"
    using foldl_map_set_distinct [of edge_id "edges st" "[]"] that
    by (simp add: addEdges_def Let_def edgeIds_def comp_def)
qed

lemma addEdges_fresh2:
  assumes "edge_id a \<notin> set (edgeIds (edges st))" and "edge_id b \<notin> set (edgeIds (edges st))"
    and "edge_id a \<noteq> edge_id b"
  shows "addEdges [a, b] st
          = st\<lparr>edges := edges (addEdges [] st) @ [normalizeEdge a, normalizeEdge b]\<rparr>"
proof -
  define m where "m = foldl (\<lambda>m e. map_set m (edge_id e) e) [] (edges st)"
  define step where "step = (\<lambda>m e. map_set m (edge_id e)
                    (case map_of m (edge_id e) of
                       None \<Rightarrow> e
                     | Some existing \<Rightarrow> mergeEdge existing e))"
  have k: "fst ` set m = edge_id ` set (edges st)"
    unfolding m_def using foldl_map_set_keys [of edge_id "[]" "edges st"] by simp
  have fa: "edge_id a \<notin> fst ` set m"
    using assms(1) k by (simp add: edgeIds_def)
  have fb: "edge_id b \<notin> fst ` set (m @ [(edge_id a, a)])"
    using assms(2,3) k by (simp add: edgeIds_def)
  have s1: "step m a = m @ [(edge_id a, a)]"
    unfolding step_def map_of_fresh [OF fa] by (simp add: map_set_fresh [OF fa])
  have s2: "step (m @ [(edge_id a, a)]) b = (m @ [(edge_id a, a)]) @ [(edge_id b, b)]"
    unfolding step_def map_of_fresh [OF fb] by (simp only: option.case map_set_fresh [OF fb])
  have "foldl step m [a, b] = m @ [(edge_id a, a), (edge_id b, b)]"
    by (simp only: foldl.simps s1 s2) simp
  then have two: "map normalizeEdge (map snd (foldl step m [a, b]))
                   = map normalizeEdge (map snd m) @ [normalizeEdge a, normalizeEdge b]"
    by simp
  have none: "edges (addEdges [] st) = map normalizeEdge (map snd m)"
    by (simp add: addEdges_def Let_def m_def)
  show ?thesis
    unfolding addEdges_def Let_def m_def [symmetric] step_def [symmetric] two none
    by simp
qed

lemma conjugate_set: "u \<noteq> [] \<Longrightarrow> u @ v = v @ z \<Longrightarrow> set v \<subseteq> set u"
proof (induction "length v" arbitrary: v z rule: less_induct)
  case less
  show ?case
  proof (cases "length v \<le> length u")
    case True
    have "take (length v) (u @ v) = v"
      using less.prems(2) by simp
    then have "v = take (length v) u"
      using True by simp
    then show ?thesis
      by (metis set_take_subset)
  next
    case False
    have "take (length u) (v @ z) = u"
      using less.prems(2) [symmetric] by simp
    then have "take (length u) v = u"
      using False by simp
    then obtain v' where v: "v = u @ v'"
      by (metis append_take_drop_id)
    have eq: "u @ v' = v' @ z"
      using less.prems(2) unfolding v by simp
    have "length v' < length v"
      using v less.prems(1) by simp
    then have "set v' \<subseteq> set u"
      using less.hyps [of v' z] less.prems(1) eq by blast
    then show ?thesis
      unfolding v by simp
  qed
qed

lemma digit_char_digit:
  "d < 10 \<Longrightarrow> 48 \<le> (of_char (digit_char d) :: nat) \<and> (of_char (digit_char d) :: nat) \<le> 57"
  by (simp add: digit_char_def)

lemma decimal_digits:
  "decimal n \<noteq> [] \<and> (\<forall>c \<in> set (decimal n). 48 \<le> (of_char c :: nat) \<and> (of_char c :: nat) \<le> 57)"
proof (induction n rule: decimal.induct)
  case (1 n)
  show ?case
  proof (cases "n < 10")
    case True
    then show ?thesis
      using digit_char_digit [of n] by (subst (1 2) decimal.simps) simp
  next
    case False
    then show ?thesis
      using 1 digit_char_digit [of "n mod 10"] by (subst (1 2) decimal.simps) simp
  qed
qed

lemma joinId_longer: "length src < length (joinIdOf src tgt t)" "length tgt < length (joinIdOf src tgt t)"
  by (simp_all add: joinIdOf_def)

lemma edge_ids_differ:
  "edgeIdOf src (joinIdOf src tgt t1) t2 \<noteq> edgeIdOf (joinIdOf src tgt t1) tgt t2"
proof
  define R where "R = ''-'' @ tgt @ ''-'' @ decimal t1"
  define J where "J = ''join-'' @ src @ R"
  assume "edgeIdOf src (joinIdOf src tgt t1) t2 = edgeIdOf (joinIdOf src tgt t1) tgt t2"
  then have "(src @ ''-'' @ J) @ (''-'' @ decimal t2) = (J @ ''-'' @ tgt) @ (''-'' @ decimal t2)"
    by (simp add: edgeIdOf_def joinIdOf_def J_def R_def)
  then have eq: "src @ ''-'' @ J = J @ ''-'' @ tgt"
    by (simp only: append_same_eq)
  then have "(src @ ''-'') @ J = J @ (''-'' @ tgt)"
    by simp
  then have sub1: "set J \<subseteq> set (src @ ''-'')"
    by (rule conjugate_set [rotated]) simp
  have "(src @ ''-join'') @ (''-'' @ src @ R) = (''join-'' @ src) @ (R @ ''-'' @ tgt)"
    using eq by (simp add: J_def)
  then have "src @ ''-join'' = ''join-'' @ src"
    by (subst (asm) append_eq_append_conv) simp_all
  then have "''join-'' @ src = src @ ''-join''"
    by simp
  then have sub2: "set src \<subseteq> set ''join-''"
    by (rule conjugate_set [rotated]) simp
  obtain c where c: "c \<in> set (decimal t1)"
    and d: "48 \<le> (of_char c :: nat) \<and> (of_char c :: nat) \<le> 57"
    using decimal_digits [of t1] by (cases "decimal t1") auto
  have "c \<in> set J"
    using c by (simp add: J_def R_def)
  then have "c \<in> set ''join-''"
    using sub1 sub2 by auto
  then show False
    using d by auto
qed


text \<open>
  C2, as the code has it. Take a gesture from entity \<open>S\<close> to entity \<open>T\<close>, both in the
  store, made while the dashed kind and the multiplicities \<^verbatim>\<open>*\<close> and \<^verbatim>\<open>*\<close> are
  selected, at clock readings for which the join id and the two edge ids that the gesture
  builds are not yet in the store. Then the store gains exactly one entity, appended
  last: the join entity, with \<open>isJoin\<close>, \<open>joinOf\<close> the two labels, the label
  \<open>S.label_T.label\<close>, three columns (the non-nullable INT primary key \<^verbatim>\<open>id\<close> and two
  non-nullable INT columns named by \<open>toIdentifier\<close> of each label followed by \<^verbatim>\<open>_id\<close>),
  with \<open>x\<close> the half of the sum of the parents' \<open>x\<close> and \<open>y\<close> the greater \<open>y\<close> plus 200,
  each operation rounded as the double arithmetic rounds it. It gains exactly two
  relationships, appended last, of kind \<^verbatim>\<open>simple\<close> with empty labels: \<open>S\<close> to the join
  entity with the selected source multiplicity and \<^verbatim>\<open>1\<close>, and the join entity to \<open>T\<close>
  with \<^verbatim>\<open>1\<close> and the selected target multiplicity. The two edge ids always differ
  from each other, and the join entity is neither \<open>S\<close> nor \<open>T\<close>, so no relationship
  joins \<open>S\<close> and \<open>T\<close> directly. The entries before the new ones are the entries that the
  store had, one per id and the relationships normalized; with unique ids they are the
  old nodes unchanged and the old relationships passed through the normalizer.
\<close>

theorem onConnect_many_to_many:
  assumes "conn_source connection = Some S" and "conn_target connection = Some T"
    and "S \<noteq> []" and "T \<noteq> []"
    and "selectedRelationshipKind st = ''segmentada''"
    and "selectedSourceMult st = ''*''" and "selectedTargetMult st = ''*''"
    and "find (\<lambda>n. node_id n = S) (nodes st) = Some sn"
    and "find (\<lambda>n. node_id n = T) (nodes st) = Some tn"
    and "joinIdOf S T now1 \<notin> set (nodeIds (nodes st))"
    and "edgeIdOf S (joinIdOf S T now1) now2 \<notin> set (edgeIds (edges st))"
    and "edgeIdOf (joinIdOf S T now1) T now2 \<notin> set (edgeIds (edges st))"
  shows "\<exists>J L R keptNodes keptEdges.
      nodes (onConnect rnd now1 now2 connection st) = keptNodes @ [J]
    \<and> set (nodeIds keptNodes) = set (nodeIds (nodes st))
    \<and> (distinct (nodeIds (nodes st)) \<longrightarrow> keptNodes = nodes st)
    \<and> filter (\<lambda>n. node_id n \<notin> set (nodeIds (nodes st)))
          (nodes (onConnect rnd now1 now2 connection st)) = [J]
    \<and> edges (onConnect rnd now1 now2 connection st) = keptEdges @ [L, R]
    \<and> set (edgeIds keptEdges) = set (edgeIds (edges st))
    \<and> (distinct (edgeIds (edges st)) \<longrightarrow> keptEdges = map normalizeEdge (edges st))
    \<and> filter (\<lambda>e. edge_id e \<notin> set (edgeIds (edges st)))
          (edges (onConnect rnd now1 now2 connection st)) = [L, R]
    \<and> node_id J = joinIdOf S T now1 \<and> node_id J \<noteq> S \<and> node_id J \<noteq> T
    \<and> node_type J = Some ''databaseNode''
    \<and> isJoin (node_data J) = Some True
    \<and> joinOf (node_data J) = Some (label (node_data sn), label (node_data tn))
    \<and> label (node_data J) = label (node_data sn) @ ''_'' @ label (node_data tn)
    \<and> columns (node_data J) =
         [\<lparr>col_id = node_id J @ ''-id'', col_name = ''id'', col_type = ''INT'',
           pk = Some True, nullable = Some False\<rparr>,
          \<lparr>col_id = node_id J @ ''-'' @ S,
           col_name = toIdentifier (label (node_data sn)) @ ''_id'', col_type = ''INT'',
           pk = None, nullable = Some False\<rparr>,
          \<lparr>col_id = node_id J @ ''-'' @ T,
           col_name = toIdentifier (label (node_data tn)) @ ''_id'', col_type = ''INT'',
           pk = None, nullable = Some False\<rparr>]
    \<and> pos_x (position J) = rnd (rnd (pos_x (position sn) + pos_x (position tn)) / 2)
    \<and> pos_y (position J) = rnd (max (pos_y (position sn)) (pos_y (position tn)) + 200)
    \<and> edge_id L = edgeIdOf S (node_id J) now2 \<and> edge_id R = edgeIdOf (node_id J) T now2
    \<and> edge_id L \<noteq> edge_id R
    \<and> edge_source L = S \<and> edge_target L = node_id J
    \<and> edge_source R = node_id J \<and> edge_target R = T
    \<and> edge_label L = Some [] \<and> edge_label R = Some []
    \<and> edge_data L = Some \<lparr>rel_id = Some (edge_id L), rel_source = Some S,
          rel_target = Some (node_id J), kind = Some ''simple'',
          sourceMult = Some (selectedSourceMult st), targetMult = Some ''1'',
          rel_label = Some []\<rparr>
    \<and> edge_data R = Some \<lparr>rel_id = Some (edge_id R), rel_source = Some (node_id J),
          rel_target = Some T, kind = Some ''simple'',
          sourceMult = Some ''1'', targetMult = Some (selectedTargetMult st),
          rel_label = Some []\<rparr>
    \<and> selectedRelationshipKind (onConnect rnd now1 now2 connection st)
        = selectedRelationshipKind st
    \<and> selectedSourceMult (onConnect rnd now1 now2 connection st) = selectedSourceMult st
    \<and> selectedTargetMult (onConnect rnd now1 now2 connection st) = selectedTargetMult st"
proof -
  define jid where "jid = joinIdOf S T now1"
  define sl where "sl = label (node_data sn)"
  define tl where "tl = label (node_data tn)"
  define J where "J =
    \<lparr>node_id = jid, node_type = Some ''databaseNode'',
     position = \<lparr>pos_x = rnd (rnd (pos_x (position sn) + pos_x (position tn)) / 2),
                  pos_y = rnd (max (pos_y (position sn)) (pos_y (position tn)) + 200)\<rparr>,
     node_data = \<lparr>label = sl @ ''_'' @ tl,
        columns =
          [\<lparr>col_id = jid @ ''-id'', col_name = ''id'', col_type = ''INT'',
            pk = Some True, nullable = Some False\<rparr>,
           \<lparr>col_id = jid @ ''-'' @ S, col_name = toIdentifier sl @ ''_id'',
            col_type = ''INT'', pk = None, nullable = Some False\<rparr>,
           \<lparr>col_id = jid @ ''-'' @ T, col_name = toIdentifier tl @ ''_id'',
            col_type = ''INT'', pk = None, nullable = Some False\<rparr>],
        isJoin = Some True, joinOf = Some (sl, tl)\<rparr>\<rparr>"
  define L where "L =
    \<lparr>edge_id = edgeIdOf S jid now2, edge_source = S, edge_target = jid,
     sourceHandle = None, targetHandle = None, edge_label = Some [],
     edge_data = Some (fullData (edgeIdOf S jid now2) S jid ''simple''
                         (selectedSourceMult st) ''1'' [])\<rparr>"
  define R where "R =
    \<lparr>edge_id = edgeIdOf jid T now2, edge_source = jid, edge_target = T,
     sourceHandle = None, targetHandle = None, edge_label = Some [],
     edge_data = Some (fullData (edgeIdOf jid T now2) jid T ''simple''
                         ''1'' (selectedTargetMult st) [])\<rparr>"
  define keptNodes where "keptNodes = nodes (addNodes [] st)"
  define keptEdges where "keptEdges = edges (addEdges [] st)"
  have run: "onConnect rnd now1 now2 connection st = addEdges [L, R] (addNodes [J] st)"
    using assms(1-9)
    by (simp add: onConnect_def Let_def J_def L_def R_def jid_def sl_def tl_def)
  have idJ: "node_id J = jid"
    by (simp add: J_def)
  have st1: "addNodes [J] st = st\<lparr>nodes := keptNodes @ [J]\<rparr>"
    unfolding keptNodes_def using assms(10) by (intro addNodes_fresh) (simp add: idJ jid_def)
  have ids: "edge_id L = edgeIdOf S jid now2" "edge_id R = edgeIdOf jid T now2"
    by (simp_all add: L_def R_def)
  have differ: "edge_id L \<noteq> edge_id R"
    unfolding ids jid_def by (rule edge_ids_differ)
  have nL: "normalizeEdge L = L"
    by (rule normalizeEdge_fixed)
       (simp add: isNormalized_def L_def fullData_def isRelationshipKind_def)
  have nR: "normalizeEdge R = R"
    by (rule normalizeEdge_fixed)
       (simp add: isNormalized_def R_def fullData_def isRelationshipKind_def)
  have same: "addEdges [] (st\<lparr>nodes := keptNodes @ [J]\<rparr>)
               = (addEdges [] st)\<lparr>nodes := keptNodes @ [J]\<rparr>"
    by (simp add: addEdges_def Let_def)
  have "addEdges [L, R] (st\<lparr>nodes := keptNodes @ [J]\<rparr>)
         = (st\<lparr>nodes := keptNodes @ [J]\<rparr>)
             \<lparr>edges := edges (addEdges [] (st\<lparr>nodes := keptNodes @ [J]\<rparr>))
                        @ [normalizeEdge L, normalizeEdge R]\<rparr>"
    using assms(11,12) differ
    by (intro addEdges_fresh2) (simp_all add: ids jid_def)
  then have fin: "onConnect rnd now1 now2 connection st
         = st\<lparr>nodes := keptNodes @ [J], edges := keptEdges @ [L, R]\<rparr>"
    by (simp add: run st1 nL nR same keptEdges_def)
  have ne: "jid \<noteq> S" "jid \<noteq> T"
    using joinId_longer [where src = S and tgt = T and t = now1] by (auto simp: jid_def)
  have kn: "set (nodeIds keptNodes) = set (nodeIds (nodes st))"
    and kd: "distinct (nodeIds (nodes st)) \<longrightarrow> keptNodes = nodes st"
    unfolding keptNodes_def using addNodes_kept [of st] by simp_all
  have ke: "set (edgeIds keptEdges) = set (edgeIds (edges st))"
    and kf: "distinct (edgeIds (edges st)) \<longrightarrow> keptEdges = map normalizeEdge (edges st)"
    unfolding keptEdges_def using addEdges_kept [of st] by simp_all
  have "filter (\<lambda>n. node_id n \<notin> set (nodeIds (nodes st))) keptNodes = []"
    using kn by (auto simp: filter_empty_conv nodeIds_def)
  then have fn: "filter (\<lambda>n. node_id n \<notin> set (nodeIds (nodes st)))
          (nodes (onConnect rnd now1 now2 connection st)) = [J]"
    using assms(10) by (simp add: fin idJ jid_def)
  have "filter (\<lambda>e. edge_id e \<notin> set (edgeIds (edges st))) keptEdges = []"
    using ke by (auto simp: filter_empty_conv edgeIds_def)
  then have fe: "filter (\<lambda>e. edge_id e \<notin> set (edgeIds (edges st)))
          (edges (onConnect rnd now1 now2 connection st)) = [L, R]"
    using assms(11,12) by (simp add: fin ids jid_def)
  have "
      nodes (onConnect rnd now1 now2 connection st) = keptNodes @ [J]
    \<and> set (nodeIds keptNodes) = set (nodeIds (nodes st))
    \<and> (distinct (nodeIds (nodes st)) \<longrightarrow> keptNodes = nodes st)
    \<and> filter (\<lambda>n. node_id n \<notin> set (nodeIds (nodes st)))
          (nodes (onConnect rnd now1 now2 connection st)) = [J]
    \<and> edges (onConnect rnd now1 now2 connection st) = keptEdges @ [L, R]
    \<and> set (edgeIds keptEdges) = set (edgeIds (edges st))
    \<and> (distinct (edgeIds (edges st)) \<longrightarrow> keptEdges = map normalizeEdge (edges st))
    \<and> filter (\<lambda>e. edge_id e \<notin> set (edgeIds (edges st)))
          (edges (onConnect rnd now1 now2 connection st)) = [L, R]
    \<and> node_id J = joinIdOf S T now1 \<and> node_id J \<noteq> S \<and> node_id J \<noteq> T
    \<and> node_type J = Some ''databaseNode''
    \<and> isJoin (node_data J) = Some True
    \<and> joinOf (node_data J) = Some (label (node_data sn), label (node_data tn))
    \<and> label (node_data J) = label (node_data sn) @ ''_'' @ label (node_data tn)
    \<and> columns (node_data J) =
         [\<lparr>col_id = node_id J @ ''-id'', col_name = ''id'', col_type = ''INT'',
           pk = Some True, nullable = Some False\<rparr>,
          \<lparr>col_id = node_id J @ ''-'' @ S,
           col_name = toIdentifier (label (node_data sn)) @ ''_id'', col_type = ''INT'',
           pk = None, nullable = Some False\<rparr>,
          \<lparr>col_id = node_id J @ ''-'' @ T,
           col_name = toIdentifier (label (node_data tn)) @ ''_id'', col_type = ''INT'',
           pk = None, nullable = Some False\<rparr>]
    \<and> pos_x (position J) = rnd (rnd (pos_x (position sn) + pos_x (position tn)) / 2)
    \<and> pos_y (position J) = rnd (max (pos_y (position sn)) (pos_y (position tn)) + 200)
    \<and> edge_id L = edgeIdOf S (node_id J) now2 \<and> edge_id R = edgeIdOf (node_id J) T now2
    \<and> edge_id L \<noteq> edge_id R
    \<and> edge_source L = S \<and> edge_target L = node_id J
    \<and> edge_source R = node_id J \<and> edge_target R = T
    \<and> edge_label L = Some [] \<and> edge_label R = Some []
    \<and> edge_data L = Some \<lparr>rel_id = Some (edge_id L), rel_source = Some S,
          rel_target = Some (node_id J), kind = Some ''simple'',
          sourceMult = Some (selectedSourceMult st), targetMult = Some ''1'',
          rel_label = Some []\<rparr>
    \<and> edge_data R = Some \<lparr>rel_id = Some (edge_id R), rel_source = Some (node_id J),
          rel_target = Some T, kind = Some ''simple'',
          sourceMult = Some ''1'', targetMult = Some (selectedTargetMult st),
          rel_label = Some []\<rparr>
    \<and> selectedRelationshipKind (onConnect rnd now1 now2 connection st)
        = selectedRelationshipKind st
    \<and> selectedSourceMult (onConnect rnd now1 now2 connection st) = selectedSourceMult st
    \<and> selectedTargetMult (onConnect rnd now1 now2 connection st) = selectedTargetMult st"
    using ne differ kn kd ke kf fn fe
    by (simp add: fin idJ ids)
       (simp add: J_def L_def R_def fullData_def jid_def sl_def tl_def)
  then show ?thesis
    by blast
qed


lemma decimal_example1: "decimal 1700000000000 = ''1700000000000''"
  by (simp add: decimal.simps digit_char_def char_of_def bit_Suc_0_iff)

lemma decimal_example2: "decimal 1700000000001 = ''1700000000001''"
  by (simp add: decimal.simps digit_char_def char_of_def bit_Suc_0_iff)

text \<open>
  The scenario of the specification: \<^verbatim>\<open>Cliente\<close> to \<^verbatim>\<open>Pedido\<close> with the dashed kind
  and both multiplicities \<^verbatim>\<open>*\<close>. And the same gesture in the store where two entities
  share an id: it still gains exactly one entity.
\<close>

theorem onConnect_many_to_many_witness:
  "find (\<lambda>n. node_id n = ''n-cliente'') (nodes exManyToMany)
     = Some (exNode ''n-cliente'' ''Cliente'' 100 100)
   \<and> joinIdOf ''n-cliente'' ''n-pedido'' 1700000000000 \<notin> set (nodeIds (nodes exManyToMany))
   \<and> length (nodes exAfterGesture) = Suc (length (nodes exManyToMany))
   \<and> length (edges exAfterGesture) = Suc (Suc (length (edges exManyToMany)))
   \<and> label (node_data (last (nodes exAfterGesture))) = ''Cliente_Pedido''
   \<and> map col_name (columns (node_data (last (nodes exAfterGesture))))
       = [''id'', ''cliente_id'', ''pedido_id'']
   \<and> position (last (nodes exAfterGesture)) = \<lparr>pos_x = 200, pos_y = 360\<rparr>
   \<and> \<not> distinct (nodeIds (nodes exDuplicated))
   \<and> length (filter (\<lambda>n. node_id n \<notin> set (nodeIds (nodes exDuplicated)))
        (nodes (onConnect exactRounding 1700000000000 1700000000000 exGesture exDuplicated)))
       = 1"
proof -
  have h1: "conn_source exGesture = Some ''n-cliente''"
    and h2: "conn_target exGesture = Some ''n-pedido''"
    by (simp_all add: exGesture_def)
  have h3: "''n-cliente'' \<noteq> []" and h4: "''n-pedido'' \<noteq> []"
    by simp_all
  have h5: "selectedRelationshipKind exManyToMany = ''segmentada''"
    and h6: "selectedSourceMult exManyToMany = ''*''"
    and h7: "selectedTargetMult exManyToMany = ''*''"
    by (simp_all add: exManyToMany_def)
  have h8: "find (\<lambda>n. node_id n = ''n-cliente'') (nodes exManyToMany)
              = Some (exNode ''n-cliente'' ''Cliente'' 100 100)"
    and h9: "find (\<lambda>n. node_id n = ''n-pedido'') (nodes exManyToMany)
              = Some (exNode ''n-pedido'' ''Pedido'' 300 160)"
    by (simp_all add: exManyToMany_def exNode_def)
  have h10: "distinct (nodeIds (nodes exManyToMany))"
    and h11: "distinct (edgeIds (edges exManyToMany))"
    by (simp_all add: exManyToMany_def exNode_def buildEdge_def nodeIds_def edgeIds_def)
  have h12: "joinIdOf ''n-cliente'' ''n-pedido'' 1700000000000
               \<notin> set (nodeIds (nodes exManyToMany))"
    by (simp add: exManyToMany_def exNode_def nodeIds_def joinIdOf_def)
  have h13: "edgeIdOf ''n-cliente'' (joinIdOf ''n-cliente'' ''n-pedido'' 1700000000000)
               1700000000000 \<notin> set (edgeIds (edges exManyToMany))"
    and h14: "edgeIdOf (joinIdOf ''n-cliente'' ''n-pedido'' 1700000000000) ''n-pedido''
               1700000000000 \<notin> set (edgeIds (edges exManyToMany))"
    by (simp_all add: exManyToMany_def buildEdge_def edgeIds_def edgeIdOf_def joinIdOf_def)
  from onConnect_many_to_many [OF h1 h2 h3 h4 h5 h6 h7 h8 h9 h12 h13 h14,
      where rnd = exactRounding]
  obtain J L R keptNodes keptEdges where
    n: "nodes exAfterGesture = keptNodes @ [J]"
    and kn: "distinct (nodeIds (nodes exManyToMany)) \<longrightarrow> keptNodes = nodes exManyToMany"
    and e: "edges exAfterGesture = keptEdges @ [L, R]"
    and ke: "distinct (edgeIds (edges exManyToMany))
               \<longrightarrow> keptEdges = map normalizeEdge (edges exManyToMany)"
    and l: "label (node_data J) = label (node_data (exNode ''n-cliente'' ''Cliente'' 100 100))
              @ ''_'' @ label (node_data (exNode ''n-pedido'' ''Pedido'' 300 160))"
    and c: "columns (node_data J) =
         [\<lparr>col_id = node_id J @ ''-id'', col_name = ''id'', col_type = ''INT'',
           pk = Some True, nullable = Some False\<rparr>,
          \<lparr>col_id = node_id J @ ''-'' @ ''n-cliente'',
           col_name = toIdentifier (label (node_data (exNode ''n-cliente'' ''Cliente'' 100 100)))
                        @ ''_id'',
           col_type = ''INT'', pk = None, nullable = Some False\<rparr>,
          \<lparr>col_id = node_id J @ ''-'' @ ''n-pedido'',
           col_name = toIdentifier (label (node_data (exNode ''n-pedido'' ''Pedido'' 300 160)))
                        @ ''_id'',
           col_type = ''INT'', pk = None, nullable = Some False\<rparr>]"
    and px: "pos_x (position J)
              = exactRounding (exactRounding
                  (pos_x (position (exNode ''n-cliente'' ''Cliente'' 100 100))
                   + pos_x (position (exNode ''n-pedido'' ''Pedido'' 300 160))) / 2)"
    and py: "pos_y (position J)
              = exactRounding (max (pos_y (position (exNode ''n-cliente'' ''Cliente'' 100 100)))
                  (pos_y (position (exNode ''n-pedido'' ''Pedido'' 300 160))) + 200)"
    unfolding exAfterGesture_def by blast
  have i1: "toIdentifier ''Cliente'' = ''cliente''" and i2: "toIdentifier ''Pedido'' = ''pedido''"
    by (simp_all add: toIdentifier_def trim_def is_space_def toLowerCase_def toLowerChar_def
        ident_char_def char_of_def bit_Suc_0_iff)
  have pos: "position J = \<lparr>pos_x = 200, pos_y = 360\<rparr>"
    using px py by (intro Position.equality) (simp_all add: exNode_def exactRounding_def)
  have c1: "length (nodes exAfterGesture) = Suc (length (nodes exManyToMany))"
    and c2: "length (edges exAfterGesture) = Suc (Suc (length (edges exManyToMany)))"
    using kn ke h10 h11 by (simp_all add: n e)
  have c3: "label (node_data (last (nodes exAfterGesture))) = ''Cliente_Pedido''"
    by (simp add: n l exNode_def)
  have c4: "map col_name (columns (node_data (last (nodes exAfterGesture))))
       = [''id'', ''cliente_id'', ''pedido_id'']"
    by (simp add: n c exNode_def i1 i2)
  have c5: "position (last (nodes exAfterGesture)) = \<lparr>pos_x = 200, pos_y = 360\<rparr>"
    by (simp add: n pos)
  have d5: "selectedRelationshipKind exDuplicated = ''segmentada''"
    and d6: "selectedSourceMult exDuplicated = ''*''"
    and d7: "selectedTargetMult exDuplicated = ''*''"
    by (simp_all add: exDuplicated_def exManyToMany_def)
  have d8: "find (\<lambda>n. node_id n = ''n-cliente'') (nodes exDuplicated)
              = Some (exNode ''n-cliente'' ''Cliente'' 100 100)"
    and d9: "find (\<lambda>n. node_id n = ''n-pedido'') (nodes exDuplicated)
              = Some (exNode ''n-pedido'' ''Pedido'' 300 160)"
    by (simp_all add: exDuplicated_def exNode_def)
  have d10: "\<not> distinct (nodeIds (nodes exDuplicated))"
    by (simp add: exDuplicated_def exNode_def nodeIds_def)
  have d12: "joinIdOf ''n-cliente'' ''n-pedido'' 1700000000000
               \<notin> set (nodeIds (nodes exDuplicated))"
    by (simp add: exDuplicated_def exNode_def nodeIds_def joinIdOf_def)
  have d13: "edgeIdOf ''n-cliente'' (joinIdOf ''n-cliente'' ''n-pedido'' 1700000000000)
               1700000000000 \<notin> set (edgeIds (edges exDuplicated))"
    and d14: "edgeIdOf (joinIdOf ''n-cliente'' ''n-pedido'' 1700000000000) ''n-pedido''
               1700000000000 \<notin> set (edgeIds (edges exDuplicated))"
    by (simp_all add: exDuplicated_def exManyToMany_def buildEdge_def edgeIds_def edgeIdOf_def
        joinIdOf_def)
  from onConnect_many_to_many [OF h1 h2 h3 h4 d5 d6 d7 d8 d9 d12 d13 d14,
      where rnd = exactRounding]
  obtain J' where
    "filter (\<lambda>n. node_id n \<notin> set (nodeIds (nodes exDuplicated)))
       (nodes (onConnect exactRounding 1700000000000 1700000000000 exGesture exDuplicated))
      = [J']"
    by blast
  then have c6: "length (filter (\<lambda>n. node_id n \<notin> set (nodeIds (nodes exDuplicated)))
        (nodes (onConnect exactRounding 1700000000000 1700000000000 exGesture exDuplicated)))
       = 1"
    by simp
  show ?thesis
    using h8 h12 c1 c2 c3 c4 c5 d10 c6 by (intro conjI)
qed

lemma exAfterGesture_value:
  "exAfterGesture =
     \<lparr>nodes = [exNode ''n-cliente'' ''Cliente'' 100 100, exNode ''n-pedido'' ''Pedido'' 300 160,
               exNode ''n-producto'' ''Producto'' 500 100,
               \<lparr>node_id = ''join-n-cliente-n-pedido-1700000000000'',
                node_type = Some ''databaseNode'', position = \<lparr>pos_x = 200, pos_y = 360\<rparr>,
                node_data = \<lparr>label = ''Cliente_Pedido'',
                  columns =
                    [pkColumn ''join-n-cliente-n-pedido-1700000000000-id'' ''id'' ''INT'' False,
                     column ''join-n-cliente-n-pedido-1700000000000-n-cliente'' ''cliente_id''
                       ''INT'' False,
                     column ''join-n-cliente-n-pedido-1700000000000-n-pedido'' ''pedido_id''
                       ''INT'' False],
                  isJoin = Some True, joinOf = Some (''Cliente'', ''Pedido'')\<rparr>\<rparr>],
      edges = [buildEdge ''e4'' ''n-cliente'' ''n-producto'' ''1'' ''*'' ''simple'' [],
               buildEdge ''edge-n-cliente-join-n-cliente-n-pedido-1700000000000-1700000000000''
                 ''n-cliente'' ''join-n-cliente-n-pedido-1700000000000'' ''*'' ''1'' ''simple'' [],
               buildEdge ''edge-join-n-cliente-n-pedido-1700000000000-n-pedido-1700000000000''
                 ''join-n-cliente-n-pedido-1700000000000'' ''n-pedido'' ''1'' ''*'' ''simple'' []],
      selectedRelationshipKind = ''segmentada'', selectedSourceMult = ''*'',
      selectedTargetMult = ''*''\<rparr>"
proof -
  have i1: "toIdentifier ''Cliente'' = ''cliente''" and i2: "toIdentifier ''Pedido'' = ''pedido''"
    by (simp_all add: toIdentifier_def trim_def is_space_def toLowerCase_def toLowerChar_def
        ident_char_def char_of_def bit_Suc_0_iff)
  show ?thesis
    by (simp add: exAfterGesture_def onConnect_def exGesture_def exManyToMany_def Let_def
        addNodes_def addEdges_def exNode_def buildEdge_def joinIdOf_def edgeIdOf_def
        decimal_example1 pkColumn_def column_def fullData_def i1 i2 exactRounding_def
        normalizeEdge_def nullish_def isRelationshipKind_def)
qed

text \<open>
  The wording of the specification, for every gesture, fails on the code: the ids are
  built from the endpoints and the clock, which counts milliseconds, and the store merges
  by id. Of two equal gestures within one millisecond (every reading of the clock gives
  1700000000000) the second adds no entity and no relationship. If the clock moves on
  between the two readings of the second gesture, it still adds no entity: it adds two
  more relationships to the join entity of the first.
\<close>

theorem onConnect_many_to_many_counterexample:
  "nodeIds (nodes exAfterGesture)
     = [''n-cliente'', ''n-pedido'', ''n-producto'', ''join-n-cliente-n-pedido-1700000000000'']
   \<and> nodeIds (nodes (onConnect exactRounding 1700000000000 1700000000000 exGesture
        exAfterGesture))
     = [''n-cliente'', ''n-pedido'', ''n-producto'', ''join-n-cliente-n-pedido-1700000000000'']
   \<and> length (edges exAfterGesture) = 3
   \<and> length (edges (onConnect exactRounding 1700000000000 1700000000000 exGesture
        exAfterGesture)) = 3
   \<and> selectedRelationshipKind exAfterGesture = ''segmentada''
   \<and> selectedSourceMult exAfterGesture = ''*'' \<and> selectedTargetMult exAfterGesture = ''*''
   \<and> nodeIds (nodes (onConnect exactRounding 1700000000000 1700000000001 exGesture
        exAfterGesture))
     = [''n-cliente'', ''n-pedido'', ''n-producto'', ''join-n-cliente-n-pedido-1700000000000'']
   \<and> length (edges (onConnect exactRounding 1700000000000 1700000000001 exGesture
        exAfterGesture)) = 5"
proof -
  have again: "nodeIds (nodes exAfterGesture)
     = [''n-cliente'', ''n-pedido'', ''n-producto'', ''join-n-cliente-n-pedido-1700000000000'']
   \<and> nodeIds (nodes (onConnect exactRounding 1700000000000 1700000000000 exGesture
        exAfterGesture))
     = [''n-cliente'', ''n-pedido'', ''n-producto'', ''join-n-cliente-n-pedido-1700000000000'']
   \<and> length (edges exAfterGesture) = 3
   \<and> length (edges (onConnect exactRounding 1700000000000 1700000000000 exGesture
        exAfterGesture)) = 3
   \<and> selectedRelationshipKind exAfterGesture = ''segmentada''
   \<and> selectedSourceMult exAfterGesture = ''*'' \<and> selectedTargetMult exAfterGesture = ''*''"
    unfolding exAfterGesture_value
    by (simp add: onConnect_def exGesture_def Let_def
        addNodes_def addEdges_def exNode_def buildEdge_def joinIdOf_def edgeIdOf_def
        decimal_example1 nodeIds_def mergeNode_def mergeEdge_def orElse_def)
  have later: "nodeIds (nodes (onConnect exactRounding 1700000000000 1700000000001 exGesture
        exAfterGesture))
     = [''n-cliente'', ''n-pedido'', ''n-producto'', ''join-n-cliente-n-pedido-1700000000000'']
   \<and> length (edges (onConnect exactRounding 1700000000000 1700000000001 exGesture
        exAfterGesture)) = 5"
    unfolding exAfterGesture_value
    by (simp add: onConnect_def exGesture_def Let_def
        addNodes_def addEdges_def exNode_def buildEdge_def joinIdOf_def edgeIdOf_def
        decimal_example1 decimal_example2 nodeIds_def mergeNode_def mergeEdge_def orElse_def)
  show ?thesis
    using again later by simp
qed


section \<open>Properties of the identifier fragments\<close>

lemma is_space_toLowerChar: "is_space (toLowerChar c) = is_space c"
  by (auto simp: is_space_def toLowerChar_def Let_def)

lemma alnum_toLowerChar: "alnum_char c \<Longrightarrow> ident_char (toLowerChar c)"
  by (auto simp: alnum_char_def ident_char_def toLowerChar_def Let_def)

lemma alnum_toLowerChar': "alnum_char c \<Longrightarrow> alnum_char (toLowerChar c)"
  by (auto simp: alnum_char_def toLowerChar_def Let_def)

lemma alnum_not_space: "alnum_char c \<Longrightarrow> \<not> is_space c"
  by (auto simp: alnum_char_def is_space_def Let_def)

lemma dropWhile_none: "list_all (\<lambda>c. \<not> P c) v \<Longrightarrow> dropWhile P v = v"
  by (cases v) auto

lemma trim_no_space: "list_all (\<lambda>c. \<not> is_space c) v \<Longrightarrow> trim v = v"
  by (simp add: trim_def dropWhile_none list_all_iff)

lemma replace_space_runs_no_space:
  "list_all (\<lambda>c. \<not> is_space c) v \<Longrightarrow> replace_space_runs v = v"
  by (induction v) auto

lemma set_trim: "set (trim v) \<subseteq> set v"
  by (auto simp: trim_def dest!: set_dropWhileD)

lemma replace_eq_collapse:
  "\<forall>c \<in> set w. alnum_char c \<or> is_space c \<Longrightarrow> replace_space_runs w = collapse_non_alnum w"
proof (induction w rule: replace_space_runs.induct)
  case 1
  then show ?case by simp
next
  case (2 c cs)
  have dw: "dropWhile is_space cs = dropWhile (\<lambda>x. \<not> alnum_char x) cs"
    using 2(3) by (intro dropWhile_cong) (auto dest: alnum_not_space)
  have sub: "\<forall>c \<in> set (dropWhile is_space cs). alnum_char c \<or> is_space c"
    using 2(3) by (auto dest: set_dropWhileD)
  show ?case
  proof (cases "is_space c")
    case True
    then have "\<not> alnum_char c" using alnum_not_space by blast
    then show ?thesis using True 2(1) [OF True sub] dw by simp
  next
    case False
    then have "alnum_char c" using 2(3) by simp
    then show ?thesis using False 2(2) [OF False] 2(3) by simp
  qed
qed

lemma set_replace_space_runs:
  "set (replace_space_runs w) \<subseteq> insert CHR ''_'' {c \<in> set w. \<not> is_space c}"
proof (induction w rule: replace_space_runs.induct)
  case 1
  then show ?case by simp
next
  case (2 c cs)
  then show ?case by (auto dest: set_dropWhileD)
qed

lemma ident_underscore: "ident_char CHR ''_''"
  by (simp add: ident_char_def)

lemma toIdentifier_nonempty: "toIdentifier v \<noteq> []"
  by (simp add: toIdentifier_def Let_def)

lemma toIdentifier_chars: "list_all ident_char (toIdentifier v)"
  by (simp add: toIdentifier_def Let_def list_all_iff ident_char_def)

lemma toIdentifier_no_space:
  assumes "list_all (\<lambda>c. \<not> is_space c) v"
  shows "toIdentifier v
          = (if filter ident_char (toLowerCase v) = [] then ''relacion''
             else filter ident_char (toLowerCase v))"
proof -
  have "list_all (\<lambda>c. \<not> is_space c) (toLowerCase v)"
    using assms by (simp add: toLowerCase_def list_all_iff is_space_toLowerChar)
  then show ?thesis
    using assms by (simp add: toIdentifier_def trim_no_space replace_space_runs_no_space)
qed

lemma toIdentifier_alnum_space:
  assumes "list_all (\<lambda>c. alnum_char c \<or> is_space c) v"
  shows "toIdentifier v = toIdentifier_spec (trim v)"
proof -
  let ?w = "toLowerCase (trim v)"
  have a: "\<forall>c \<in> set (trim v). alnum_char c \<or> is_space c"
    using assms set_trim [of v] by (auto simp: list_all_iff)
  then have w: "\<forall>c \<in> set ?w. alnum_char c \<or> is_space c"
    by (auto simp: toLowerCase_def is_space_toLowerChar alnum_toLowerChar')
  have l: "\<forall>c \<in> set ?w. \<not> is_space c \<longrightarrow> ident_char c"
    using a by (auto simp: toLowerCase_def is_space_toLowerChar alnum_toLowerChar)
  have "\<forall>c \<in> set (replace_space_runs ?w). ident_char c"
    using set_replace_space_runs [of ?w] l ident_underscore by auto
  then have "filter ident_char (replace_space_runs ?w) = replace_space_runs ?w"
    by simp
  then show ?thesis
    using replace_eq_collapse [OF w] by (simp add: toIdentifier_def toIdentifier_spec_def)
qed

lemma fragment_chars_after_space:
  "fragment_chars True cs = fragment_chars False (dropWhile is_space cs)"
  by (induction cs) simp_all

lemma filter_replace_space_runs:
  "filter ident_char (replace_space_runs w) = fragment_chars False w"
proof (induction w rule: replace_space_runs.induct)
  case 1
  then show ?case by simp
next
  case (2 c cs)
  then show ?case
    by (simp add: ident_underscore fragment_chars_after_space)
qed

lemma toIdentifier_by_char: "toIdentifier v = fragment_by_char v"
  by (simp add: toIdentifier_def fragment_by_char_def filter_replace_space_runs)

text \<open>
  C6, as the code has it. For every label the fragment is what one pass over the trimmed,
  lower-cased label gives: a character of \<^verbatim>\<open>a-z\<close>, \<^verbatim>\<open>0-9\<close> or \<^verbatim>\<open>_\<close> is kept, the
  first white space of a run becomes one underscore and the rest of the run is dropped,
  every other character is deleted, not replaced, and \<^verbatim>\<open>relacion\<close> stands for an empty
  result. The letters that survive are the ASCII letters only: an accented letter is
  deleted. So the fragment is never empty and is made of those characters only. For a
  label without white space the fragment is the lower-cased label with the other
  characters filtered out, and \<^verbatim>\<open>relacion\<close> when nothing is left. For a label made of
  ASCII letters, digits and white space only, the fragment is what the specification
  describes, applied to the trimmed label. \<^verbatim>\<open>Cliente\<close> and \<^verbatim>\<open>Pedido\<close> give the column
  names \<^verbatim>\<open>cliente_id\<close> and \<^verbatim>\<open>pedido_id\<close>.
\<close>

theorem toIdentifier_fragment:
  "toIdentifier v = fragment_by_char v
   \<and> toIdentifier v \<noteq> []
   \<and> list_all ident_char (toIdentifier v)
   \<and> (list_all (\<lambda>c. \<not> is_space c) v \<longrightarrow>
        toIdentifier v
          = (if filter ident_char (toLowerCase v) = [] then ''relacion''
             else filter ident_char (toLowerCase v)))
   \<and> (list_all (\<lambda>c. alnum_char c \<or> is_space c) v \<longrightarrow>
        toIdentifier v = toIdentifier_spec (trim v))
   \<and> toIdentifier ''Cliente'' @ ''_id'' = ''cliente_id''
   \<and> toIdentifier ''Pedido'' @ ''_id'' = ''pedido_id''"
proof -
  have i1: "toIdentifier ''Cliente'' @ ''_id'' = ''cliente_id''"
    and i2: "toIdentifier ''Pedido'' @ ''_id'' = ''pedido_id''"
    by (simp_all add: toIdentifier_def trim_def is_space_def toLowerCase_def toLowerChar_def
        ident_char_def char_of_def bit_Suc_0_iff)
  have a: "list_all (\<lambda>c. \<not> is_space c) v \<longrightarrow>
        toIdentifier v
          = (if filter ident_char (toLowerCase v) = [] then ''relacion''
             else filter ident_char (toLowerCase v))"
    using toIdentifier_no_space [of v] by (rule impI)
  have b: "list_all (\<lambda>c. alnum_char c \<or> is_space c) v \<longrightarrow>
        toIdentifier v = toIdentifier_spec (trim v)"
    using toIdentifier_alnum_space [of v] by (rule impI)
  show ?thesis
    using toIdentifier_by_char [of v] toIdentifier_nonempty [of v] toIdentifier_chars [of v]
      a b i1 i2
    by (intro conjI)
qed

text \<open>
  A label with white space at both ends and inside, a label with a hyphen, a label that
  mixes a hyphen with white space, a label with an accented letter (\<^verbatim>\<open>Direccion\<close> with
  the code unit 243 for its \<^verbatim>\<open>o\<close>), and a label of symbols only; the columns of the join
  entity between \<^verbatim>\<open>Cliente\<close> and \<^verbatim>\<open>Pedido\<close>.
\<close>

theorem toIdentifier_fragment_witness:
  "list_all (\<lambda>c. alnum_char c \<or> is_space c) ''  Detalle   de Venta ''
   \<and> toIdentifier ''  Detalle   de Venta '' = ''detalle_de_venta''
   \<and> toIdentifier_spec (trim ''  Detalle   de Venta '') = ''detalle_de_venta''
   \<and> list_all (\<lambda>c. \<not> is_space c) ''Order-Item''
   \<and> toIdentifier ''Order-Item'' = ''orderitem''
   \<and> toIdentifier ''***'' = ''relacion''
   \<and> toIdentifier ''Order-Item 2'' = ''orderitem_2''
   \<and> toIdentifier (''Direcci'' @ CHR 0xF3 # ''n'') = ''direccin''
   \<and> toIdentifier '' - '' = ''relacion''
   \<and> toIdentifier ''a - b'' = ''a__b''
   \<and> map col_name (columns (node_data (last (nodes exAfterGesture))))
       = [''id'', ''cliente_id'', ''pedido_id'']"
proof -
  have h1: "list_all (\<lambda>c. alnum_char c \<or> is_space c) ''  Detalle   de Venta ''"
    by (simp add: alnum_char_def is_space_def)
  have h2: "list_all (\<lambda>c. \<not> is_space c) ''Order-Item''"
    and h3: "list_all (\<lambda>c. \<not> is_space c) ''***''"
    by (simp_all add: is_space_def)
  note s = toIdentifier_fragment [of "''  Detalle   de Venta ''", THEN conjunct2,
      THEN conjunct2, THEN conjunct2, THEN conjunct2, THEN conjunct1, rule_format, OF h1]
  note o = toIdentifier_fragment [of "''Order-Item''", THEN conjunct2, THEN conjunct2,
      THEN conjunct2, THEN conjunct1, rule_format, OF h2]
  note r = toIdentifier_fragment [of "''***''", THEN conjunct2, THEN conjunct2,
      THEN conjunct2, THEN conjunct1, rule_format, OF h3]
  note f1 = toIdentifier_fragment [of "''Order-Item 2''", THEN conjunct1]
  note f2 = toIdentifier_fragment [of "''Direcci'' @ CHR 0xF3 # ''n''",
      THEN conjunct1]
  note f3 = toIdentifier_fragment [of "'' - ''", THEN conjunct1]
  note f4 = toIdentifier_fragment [of "''a - b''", THEN conjunct1]
  have t: "trim ''  Detalle   de Venta '' = ''Detalle   de Venta''"
    by (simp add: trim_def is_space_def)
  have e1: "toIdentifier_spec (trim ''  Detalle   de Venta '') = ''detalle_de_venta''"
    unfolding t
    by (simp add: toIdentifier_spec_def toLowerCase_def toLowerChar_def alnum_char_def
        char_of_def bit_Suc_0_iff)
  have e2: "toIdentifier ''Order-Item'' = ''orderitem''"
    unfolding o
    by (simp add: toLowerCase_def toLowerChar_def ident_char_def char_of_def bit_Suc_0_iff)
  have e3: "toIdentifier ''***'' = ''relacion''"
    unfolding r
    by (simp add: toLowerCase_def toLowerChar_def ident_char_def)
  have e5: "toIdentifier ''Order-Item 2'' = ''orderitem_2''"
    unfolding f1
    by (simp add: fragment_by_char_def trim_def is_space_def toLowerCase_def toLowerChar_def
        ident_char_def char_of_def bit_Suc_0_iff)
  have e6: "toIdentifier (''Direcci'' @ CHR 0xF3 # ''n'') = ''direccin''"
    unfolding f2
    by (simp add: fragment_by_char_def trim_def is_space_def toLowerCase_def toLowerChar_def
        ident_char_def char_of_def bit_Suc_0_iff)
  have e7: "toIdentifier '' - '' = ''relacion''"
    unfolding f3
    by (simp add: fragment_by_char_def trim_def is_space_def toLowerCase_def toLowerChar_def
        ident_char_def char_of_def bit_Suc_0_iff)
  have e8: "toIdentifier ''a - b'' = ''a__b''"
    unfolding f4
    by (simp add: fragment_by_char_def trim_def is_space_def toLowerCase_def toLowerChar_def
        ident_char_def char_of_def bit_Suc_0_iff)
  have e4: "map col_name (columns (node_data (last (nodes exAfterGesture))))
       = [''id'', ''cliente_id'', ''pedido_id'']"
    by (simp add: exAfterGesture_value pkColumn_def column_def)
  show ?thesis
    using h1 s [unfolded e1] e1 h2 e2 e3 e5 e6 e7 e8 e4 by (intro conjI)
qed

text \<open>
  The wording of the specification fails on the code: a run of non-alphanumeric characters that
  is not white space is deleted, not collapsed to an underscore, and underscores are
  kept as they are.
\<close>

theorem toIdentifier_fragment_counterexample:
  "toIdentifier ''Order-Item'' = ''orderitem''
   \<and> toIdentifier_spec ''Order-Item'' = ''order_item''
   \<and> toIdentifier ''a__b'' = ''a__b''
   \<and> toIdentifier_spec ''a__b'' = ''a_b''
   \<and> toIdentifier ''Order-Item'' \<noteq> toIdentifier_spec ''Order-Item''"
  by (simp add: toIdentifier_def toIdentifier_spec_def trim_def is_space_def toLowerCase_def
      toLowerChar_def ident_char_def alnum_char_def char_of_def bit_Suc_0_iff)

section \<open>Properties of the history reconciler\<close>

lemma loadHistory_store: "store (loadHistory options reply st) = store st"
  by (cases reply) (simp_all add: loadHistory_def Let_def)

text \<open>
  C8. A clear-all that succeeds (the cached list is not empty, the user confirms, the
  request succeeds) sends the one request that deletes the history, sets the active
  pointer and its ref to null, resets the prompt buffer to the default seed text, empties
  the cached list, and leaves the diagram store as it was; no outcome of a clear-all
  changes the diagram store. While a clear-all is in progress, that is from the moment
  the handler has passed its guards until its request is answered, the flag
  \<open>isClearingHistory\<close> is set, and in every state with that flag set a request to delete
  one entry returns at once: no request is sent and the state is unchanged.
\<close>

theorem handleClearHistory_resets:
  "(history st \<noteq> [] \<longrightarrow>
      activeHistoryId (fst (handleClearHistory True True st)) = None
    \<and> activeHistoryIdRef (fst (handleClearHistory True True st)) = None
    \<and> prompt (fst (handleClearHistory True True st)) = DEFAULT_PROMPT
    \<and> history (fst (handleClearHistory True True st)) = []
    \<and> isClearingHistory (fst (handleClearHistory True True st)) = False
    \<and> snd (handleClearHistory True True st) = [DeleteHistory])
   \<and> store (fst (handleClearHistory confirmed deleted st)) = store st
   \<and> (\<forall>st1. handleClearHistory_begin confirmed st = Some st1 \<longrightarrow>
         isClearingHistory st1
       \<and> handleDeleteEntry historyId confirmed' deleted' reply st1 = (st1, []))
   \<and> (isClearingHistory st \<longrightarrow>
         handleDeleteEntry historyId confirmed' deleted' reply st = (st, []))"
proof -
  have ok: "history st \<noteq> [] \<longrightarrow>
      activeHistoryId (fst (handleClearHistory True True st)) = None
    \<and> activeHistoryIdRef (fst (handleClearHistory True True st)) = None
    \<and> prompt (fst (handleClearHistory True True st)) = DEFAULT_PROMPT
    \<and> history (fst (handleClearHistory True True st)) = []
    \<and> isClearingHistory (fst (handleClearHistory True True st)) = False
    \<and> snd (handleClearHistory True True st) = [DeleteHistory]"
    by (simp add: handleClearHistory_def handleClearHistory_begin_def
        handleClearHistory_end_def Let_def)
  have frame: "store (fst (handleClearHistory confirmed deleted st)) = store st"
    by (simp add: handleClearHistory_def handleClearHistory_begin_def
        handleClearHistory_end_def Let_def)
  have busy: "isClearingHistory s \<longrightarrow>
         handleDeleteEntry historyId confirmed' deleted' reply s = (s, [])" for s
    by (simp add: handleDeleteEntry_def)
  have began: "\<forall>st1. handleClearHistory_begin confirmed st = Some st1 \<longrightarrow>
         isClearingHistory st1
       \<and> handleDeleteEntry historyId confirmed' deleted' reply st1 = (st1, [])"
  proof (intro allI impI)
    fix st1
    assume "handleClearHistory_begin confirmed st = Some st1"
    then have "isClearingHistory st1"
      by (auto simp: handleClearHistory_begin_def split: if_splits)
    then show "isClearingHistory st1
       \<and> handleDeleteEntry historyId confirmed' deleted' reply st1 = (st1, [])"
      using busy [of st1] by simp
  qed
  show ?thesis
    using ok frame began busy [of st] by (intro conjI)
qed

text \<open>
  On the example panel: the clear-all, and a delete of entry 3 that arrives while the
  clear-all is waiting for its answer.
\<close>

theorem handleClearHistory_resets_witness:
  "history exChat \<noteq> []
   \<and> activeHistoryId (fst (handleClearHistory True True exChat)) = None
   \<and> prompt (fst (handleClearHistory True True exChat)) = DEFAULT_PROMPT
   \<and> history (fst (handleClearHistory True True exChat)) = []
   \<and> store (fst (handleClearHistory True True exChat)) = exShop
   \<and> handleClearHistory_begin True exChat = Some (exChat\<lparr>isClearingHistory := True\<rparr>)
   \<and> handleDeleteEntry 3 True True (HistoryData (Some exListing))
        (exChat\<lparr>isClearingHistory := True\<rparr>)
       = (exChat\<lparr>isClearingHistory := True\<rparr>, [])"
proof -
  have h: "history exChat \<noteq> []"
    by (simp add: exChat_def)
  have b: "handleClearHistory_begin True exChat = Some (exChat\<lparr>isClearingHistory := True\<rparr>)"
    by (simp add: handleClearHistory_begin_def exChat_def)
  note ok = handleClearHistory_resets [where st = exChat, THEN conjunct1, rule_format, OF h]
  note fr = handleClearHistory_resets [where st = exChat and confirmed = True
      and deleted = True, THEN conjunct2, THEN conjunct1]
  note bg = handleClearHistory_resets [where st = exChat and confirmed = True
      and historyId = 3 and confirmed' = True and deleted' = True
      and reply = "HistoryData (Some exListing)",
      THEN conjunct2, THEN conjunct2, THEN conjunct1, rule_format, OF b]
  have s: "store (fst (handleClearHistory True True exChat)) = exShop"
    unfolding fr by (simp add: exChat_def)
  show ?thesis
    using h ok [THEN conjunct1] ok [THEN conjunct2, THEN conjunct2, THEN conjunct1]
      ok [THEN conjunct2, THEN conjunct2, THEN conjunct2, THEN conjunct1] s b
      bg [THEN conjunct2]
    by (intro conjI)
qed

text \<open>
  C10. Take a refetch that is not asked to preserve a null selection (the option is absent,
  as in the fetch on mount, or false) and that the history service answers with a list. If
  the previously active id, read from the ref, is null or is not the id of a fetched
  entry, the active pointer and its ref become the id of the first fetched entry, or null
  when the list is empty; the cached list becomes the fetched one. So loading the list
  alone makes its first, newest entry active. No refetch, whatever its options and its
  answer, changes the diagram store. (An answer whose body is not an array is taken as
  the empty list, and the pointer becomes null.)
\<close>

theorem loadHistory_adopts_first:
  "(preserveNullSelection options \<noteq> Some True
      \<and> activeHistoryIdRef st \<notin> set (map (\<lambda>item. Some (api_id item)) items) \<longrightarrow>
      activeHistoryId (loadHistory options (HistoryData (Some items)) st)
        = (case items of [] \<Rightarrow> None | item # _ \<Rightarrow> Some (api_id item))
    \<and> activeHistoryIdRef (loadHistory options (HistoryData (Some items)) st)
        = (case items of [] \<Rightarrow> None | item # _ \<Rightarrow> Some (api_id item))
    \<and> history (loadHistory options (HistoryData (Some items)) st) = map mapHistoryItem items)
   \<and> loadHistoryOnMount reply st = loadHistory \<lparr>preserveNullSelection = None\<rparr> reply st
   \<and> store (loadHistory options reply st) = store st
   \<and> store (loadHistoryOnMount reply st) = store st
   \<and> activeHistoryId (loadHistory options (HistoryData None) st) = None
   \<and> activeHistoryIdRef (loadHistory options (HistoryData None) st) = None
   \<and> history (loadHistory options (HistoryData None) st) = []"
proof -
  have adopt: "preserveNullSelection options \<noteq> Some True
      \<and> activeHistoryIdRef st \<notin> set (map (\<lambda>item. Some (api_id item)) items) \<longrightarrow>
      activeHistoryId (loadHistory options (HistoryData (Some items)) st)
        = (case items of [] \<Rightarrow> None | item # _ \<Rightarrow> Some (api_id item))
    \<and> activeHistoryIdRef (loadHistory options (HistoryData (Some items)) st)
        = (case items of [] \<Rightarrow> None | item # _ \<Rightarrow> Some (api_id item))
    \<and> history (loadHistory options (HistoryData (Some items)) st) = map mapHistoryItem items"
  proof
    assume a: "preserveNullSelection options \<noteq> Some True
      \<and> activeHistoryIdRef st \<notin> set (map (\<lambda>item. Some (api_id item)) items)"
    then have "\<forall>item \<in> set items. Some (api_id item) \<noteq> activeHistoryIdRef st"
      by force
    then have "\<not> list_ex (\<lambda>entry. Some (h_id entry) = activeHistoryIdRef st)
                 (map mapHistoryItem items)"
      by (simp add: list_ex_iff mapHistoryItem_def)
    then show "activeHistoryId (loadHistory options (HistoryData (Some items)) st)
        = (case items of [] \<Rightarrow> None | item # _ \<Rightarrow> Some (api_id item))
    \<and> activeHistoryIdRef (loadHistory options (HistoryData (Some items)) st)
        = (case items of [] \<Rightarrow> None | item # _ \<Rightarrow> Some (api_id item))
    \<and> history (loadHistory options (HistoryData (Some items)) st) = map mapHistoryItem items"
      using a
      by (cases items) (simp_all add: loadHistory_def Let_def nullish_def mapHistoryItem_def)
  qed
  have mount: "loadHistoryOnMount reply st = loadHistory \<lparr>preserveNullSelection = None\<rparr> reply st"
    by (simp add: loadHistoryOnMount_def)
  have body: "activeHistoryId (loadHistory options (HistoryData None) st) = None"
    "activeHistoryIdRef (loadHistory options (HistoryData None) st) = None"
    "history (loadHistory options (HistoryData None) st) = []"
    by (simp_all add: loadHistory_def Let_def nullish_def)
  show ?thesis
    using adopt mount loadHistory_store [of options reply st]
      loadHistory_store [of "\<lparr>preserveNullSelection = None\<rparr>" reply st, folded mount] body
    by (intro conjI)
qed

text \<open>
  On the example panel after a new conversation was started (no active entry): the fetch
  on mount makes entry 8, the first of the listing, active; the canvas is as before.
\<close>

theorem loadHistory_adopts_first_witness:
  "activeHistoryIdRef (handleNewConversation exChat) = None
   \<and> activeHistoryIdRef (handleNewConversation exChat)
       \<notin> set (map (\<lambda>item. Some (api_id item)) exListing)
   \<and> activeHistoryId
        (loadHistoryOnMount (HistoryData (Some exListing)) (handleNewConversation exChat))
       = Some 8
   \<and> map h_id (history
        (loadHistoryOnMount (HistoryData (Some exListing)) (handleNewConversation exChat)))
       = [8, 7, 3]
   \<and> store (loadHistoryOnMount (HistoryData (Some exListing)) (handleNewConversation exChat))
       = exShop"
proof -
  let ?st = "handleNewConversation exChat"
  have r: "activeHistoryIdRef ?st = None"
    by (simp add: handleNewConversation_def)
  have h: "preserveNullSelection \<lparr>preserveNullSelection = None\<rparr> \<noteq> Some True
      \<and> activeHistoryIdRef ?st \<notin> set (map (\<lambda>item. Some (api_id item)) exListing)"
    by (simp add: r exListing_def)
  note t = loadHistory_adopts_first [where options = "\<lparr>preserveNullSelection = None\<rparr>"
      and st = ?st and items = exListing and reply = "HistoryData (Some exListing)"]
  note a = t [THEN conjunct1, rule_format, OF h]
  note m = t [THEN conjunct2, THEN conjunct1]
  note s = t [THEN conjunct2, THEN conjunct2, THEN conjunct2, THEN conjunct1]
  have c1: "activeHistoryId (loadHistoryOnMount (HistoryData (Some exListing)) ?st) = Some 8"
    unfolding m using a [THEN conjunct1] by (simp add: exListing_def exItem_def)
  have c2: "map h_id (history (loadHistoryOnMount (HistoryData (Some exListing)) ?st))
       = [8, 7, 3]"
    unfolding m using a [THEN conjunct2, THEN conjunct2]
    by (simp add: exListing_def exItem_def mapHistoryItem_def)
  have c3: "store (loadHistoryOnMount (HistoryData (Some exListing)) ?st) = exShop"
    unfolding s by (simp add: handleNewConversation_def exChat_def)
  show ?thesis
    using r h [THEN conjunct2] c1 c2 c3 by (intro conjI)
qed

section \<open>Properties of the offline fallback generator\<close>

lemma str_includes_sublist: "str_includes t kw = sublist kw t"
  by (induction t) (simp_all add: sublist_Cons_right)

lemma sublist_map_iff:
  "sublist kw (map f p) \<longleftrightarrow> (\<exists>u w v. p = u @ w @ v \<and> map f w = kw)"
proof
  assume "sublist kw (map f p)"
  then obtain ps ss where eq: "map f p = ps @ kw @ ss"
    by (auto simp: sublist_def)
  let ?u = "take (length ps) p"
  let ?w = "take (length kw) (drop (length ps) p)"
  let ?v = "drop (length kw) (drop (length ps) p)"
  have "map f ?w = take (length kw) (drop (length ps) (map f p))"
    by (simp add: take_map drop_map)
  also have "\<dots> = kw"
    unfolding eq by simp
  finally have "map f ?w = kw" .
  moreover have "p = ?u @ ?w @ ?v"
    by (simp only: append_take_drop_id)
  ultimately show "\<exists>u w v. p = u @ w @ v \<and> map f w = kw"
    by blast
next
  assume "\<exists>u w v. p = u @ w @ v \<and> map f w = kw"
  then obtain u w v where "p = u @ w @ v" and "map f w = kw"
    by blast
  then have "map f p = map f u @ kw @ map f v"
    by simp
  then show "sublist kw (map f p)"
    unfolding sublist_def by blast
qed

lemma includes_ignoring_case:
  "str_includes (toLowerCase p) kw \<longleftrightarrow> (\<exists>u w v. p = u @ w @ v \<and> toLowerCase w = kw)"
  unfolding str_includes_sublist toLowerCase_def by (rule sublist_map_iff)

lemma fallback_edges_unchanged:
  "map normalizeEdge (map sanitizeEdge (g_edges buildDefaultDiagram)) = g_edges buildDefaultDiagram"
  by (simp add: buildDefaultDiagram_def buildEdge_def sanitizeEdge_def normalizeEdge_def
      nullish_def isRelationshipKind_def Let_def)

text \<open>
  C9. The fallback generator is a function of the prompt text alone, and the text counts
  only up to the case of its letters. It answers with the pre-built supermarket graph when
  the prompt contains, in any mix of cases, \<^verbatim>\<open>supermercado\<close> or \<^verbatim>\<open>supermarket\<close>;
  otherwise with the fixed Usuario/Post graph, which has two entities and one
  relationship from the first to the second, when the prompt contains \<^verbatim>\<open>usuario\<close> or
  \<^verbatim>\<open>post\<close>; and with no result otherwise. The supermarket keywords are tested first.
  For the prompt \<^verbatim>\<open>Crea tablas Usuario y Post\<close> the answer is the Usuario/Post graph,
  and when the generation request fails without a response that carries a detail
  (an empty detail counts as none), \<open>handleGenerate\<close> puts exactly that graph on the
  canvas (with the notice that the
  design was generated locally).
\<close>

theorem buildFallbackDiagram_keywords:
  "((\<exists>u w v. p = u @ w @ v
        \<and> (toLowerCase w = ''supermercado'' \<or> toLowerCase w = ''supermarket'')) \<longrightarrow>
      buildFallbackDiagram p = Some buildSupermarketDiagram)
   \<and> ((\<nexists>u w v. p = u @ w @ v
         \<and> (toLowerCase w = ''supermercado'' \<or> toLowerCase w = ''supermarket''))
       \<and> (\<exists>u w v. p = u @ w @ v \<and> (toLowerCase w = ''usuario'' \<or> toLowerCase w = ''post'')) \<longrightarrow>
      buildFallbackDiagram p = Some buildDefaultDiagram)
   \<and> ((\<nexists>u w v. p = u @ w @ v
         \<and> (toLowerCase w = ''supermercado'' \<or> toLowerCase w = ''supermarket''
            \<or> toLowerCase w = ''usuario'' \<or> toLowerCase w = ''post'')) \<longrightarrow>
      buildFallbackDiagram p = None)
   \<and> (toLowerCase p = toLowerCase q \<longrightarrow> buildFallbackDiagram p = buildFallbackDiagram q)
   \<and> map (\<lambda>n. label (node_data n)) (g_nodes buildDefaultDiagram) = [''Usuario'', ''Post'']
   \<and> map (\<lambda>e. (edge_source e, edge_target e)) (g_edges buildDefaultDiagram)
       = [(''node-usuario-ai'', ''node-post-ai'')]
   \<and> nodeIds (g_nodes buildDefaultDiagram) = [''node-usuario-ai'', ''node-post-ai'']
   \<and> length (g_nodes buildSupermarketDiagram) = 8
   \<and> length (g_edges buildSupermarketDiagram) = 7
   \<and> buildFallbackDiagram ''Crea tablas Usuario y Post'' = Some buildDefaultDiagram
   \<and> (trim (prompt st) = ''Crea tablas Usuario y Post'' \<and> \<not> truthy detail \<longrightarrow>
        nodes (store (fst (handleGenerate (GenerateError detail message) hreply st)))
          = g_nodes buildDefaultDiagram
      \<and> edges (store (fst (handleGenerate (GenerateError detail message) hreply st)))
          = g_edges buildDefaultDiagram
      \<and> error (fst (handleGenerate (GenerateError detail message) hreply st))
          = Some ''Backend no disponible; se genero un diseno local.'')"
proof -
  let ?super = "\<exists>u w v. p = u @ w @ v
        \<and> (toLowerCase w = ''supermercado'' \<or> toLowerCase w = ''supermarket'')"
  let ?user = "\<exists>u w v. p = u @ w @ v \<and> (toLowerCase w = ''usuario'' \<or> toLowerCase w = ''post'')"
  have s: "?super \<longleftrightarrow> str_includes (toLowerCase p) ''supermercado''
                       \<or> str_includes (toLowerCase p) ''supermarket''"
    unfolding includes_ignoring_case by blast
  have u: "?user \<longleftrightarrow> str_includes (toLowerCase p) ''usuario''
                       \<or> str_includes (toLowerCase p) ''post''"
    unfolding includes_ignoring_case by blast
  have c1: "?super \<longrightarrow> buildFallbackDiagram p = Some buildSupermarketDiagram"
    unfolding s by (simp add: buildFallbackDiagram_def Let_def)
  have c2: "\<not> ?super \<and> ?user \<longrightarrow> buildFallbackDiagram p = Some buildDefaultDiagram"
    unfolding s u by (simp add: buildFallbackDiagram_def Let_def)
  have "(\<nexists>u w v. p = u @ w @ v
         \<and> (toLowerCase w = ''supermercado'' \<or> toLowerCase w = ''supermarket''
            \<or> toLowerCase w = ''usuario'' \<or> toLowerCase w = ''post'')) \<longleftrightarrow> \<not> ?super \<and> \<not> ?user"
    by blast
  then have c3: "(\<nexists>u w v. p = u @ w @ v
         \<and> (toLowerCase w = ''supermercado'' \<or> toLowerCase w = ''supermarket''
            \<or> toLowerCase w = ''usuario'' \<or> toLowerCase w = ''post'')) \<longrightarrow>
      buildFallbackDiagram p = None"
    unfolding s u by (simp add: buildFallbackDiagram_def Let_def)
  have c4: "toLowerCase p = toLowerCase q \<longrightarrow> buildFallbackDiagram p = buildFallbackDiagram q"
    by (simp add: buildFallbackDiagram_def)
  have c5: "map (\<lambda>n. label (node_data n)) (g_nodes buildDefaultDiagram) = [''Usuario'', ''Post'']"
    and c6: "map (\<lambda>e. (edge_source e, edge_target e)) (g_edges buildDefaultDiagram)
       = [(''node-usuario-ai'', ''node-post-ai'')]"
    and c7: "nodeIds (g_nodes buildDefaultDiagram) = [''node-usuario-ai'', ''node-post-ai'']"
    by (simp_all add: buildDefaultDiagram_def buildNode_def buildEdge_def noExtra_def
        nullish_def nodeIds_def)
  have c8: "length (g_nodes buildSupermarketDiagram) = 8"
    and c9: "length (g_edges buildSupermarketDiagram) = 7"
    by (simp_all add: buildSupermarketDiagram_def)
  have c10: "buildFallbackDiagram ''Crea tablas Usuario y Post'' = Some buildDefaultDiagram"
    by (simp add: buildFallbackDiagram_def toLowerCase_def toLowerChar_def char_of_def
        bit_Suc_0_iff)
  have c11: "trim (prompt st) = ''Crea tablas Usuario y Post'' \<and> \<not> truthy detail \<longrightarrow>
        nodes (store (fst (handleGenerate (GenerateError detail message) hreply st)))
          = g_nodes buildDefaultDiagram
      \<and> edges (store (fst (handleGenerate (GenerateError detail message) hreply st)))
          = g_edges buildDefaultDiagram
      \<and> error (fst (handleGenerate (GenerateError detail message) hreply st))
          = Some ''Backend no disponible; se genero un diseno local.''"
    by (simp add: handleGenerate_def Let_def c10 applyGraphToCanvas_def setGraph_def
        fallback_edges_unchanged del: map_map)
  show ?thesis
    using c1 c2 c3 c4 c5 c6 c7 c8 c9 c10 c11 by (intro conjI)
qed

text \<open>
  The scenario of the specification, with the service unreachable; the same keywords in
  capitals; a prompt with a keyword of each family; a prompt with no keyword; and the
  scenario again with an error response whose detail is the empty string.
\<close>

theorem buildFallbackDiagram_keywords_witness:
  "trim (prompt (exChat\<lparr>prompt := '' Crea tablas Usuario y Post ''\<rparr>))
     = ''Crea tablas Usuario y Post''
   \<and> nodeIds (nodes (store (fst (handleGenerate (GenerateError None (Some ''Network Error''))
        HistoryError (exChat\<lparr>prompt := '' Crea tablas Usuario y Post ''\<rparr>)))))
       = [''node-usuario-ai'', ''node-post-ai'']
   \<and> length (edges (store (fst (handleGenerate (GenerateError None (Some ''Network Error''))
        HistoryError (exChat\<lparr>prompt := '' Crea tablas Usuario y Post ''\<rparr>))))) = 1
   \<and> toLowerCase ''CREA TABLAS USUARIO Y POST'' = toLowerCase ''Crea tablas Usuario y Post''
   \<and> buildFallbackDiagram ''CREA TABLAS USUARIO Y POST'' = Some buildDefaultDiagram
   \<and> ''Un SuperMercado con usuario'' = ''Un '' @ ''SuperMercado'' @ '' con usuario''
   \<and> buildFallbackDiagram ''Un SuperMercado con usuario'' = Some buildSupermarketDiagram
   \<and> buildFallbackDiagram ''Hola'' = None
   \<and> error (fst (handleGenerate (GenerateError (Some []) None) HistoryError
        (exChat\<lparr>prompt := '' Crea tablas Usuario y Post ''\<rparr>)))
       = Some ''Backend no disponible; se genero un diseno local.''"
proof -
  let ?st = "exChat\<lparr>prompt := '' Crea tablas Usuario y Post ''\<rparr>"
  have tp: "trim (prompt ?st) = ''Crea tablas Usuario y Post''"
    by (simp add: trim_def is_space_def)
  have h: "trim (prompt ?st) = ''Crea tablas Usuario y Post'' \<and> \<not> truthy None"
    using tp by (simp add: truthy_def)
  have h': "trim (prompt ?st) = ''Crea tablas Usuario y Post'' \<and> \<not> truthy (Some [])"
    using tp by (simp add: truthy_def)
  note w6 = buildFallbackDiagram_keywords [where st = ?st and message = None
      and detail = "Some []" and hreply = HistoryError, THEN conjunct2, THEN conjunct2,
      THEN conjunct2, THEN conjunct2, THEN conjunct2, THEN conjunct2, THEN conjunct2,
      THEN conjunct2, THEN conjunct2, THEN conjunct2, rule_format, OF h', THEN conjunct2,
      THEN conjunct2]
  note t = buildFallbackDiagram_keywords [where st = ?st and message = "Some ''Network Error''"
      and detail = None
      and hreply = HistoryError and p = "''CREA TABLAS USUARIO Y POST''"
      and q = "''Crea tablas Usuario y Post''"]
  note g = t [THEN conjunct2, THEN conjunct2, THEN conjunct2, THEN conjunct2,
      THEN conjunct2, THEN conjunct2, THEN conjunct2, THEN conjunct2, THEN conjunct2,
      THEN conjunct2, rule_format, OF h]
  have lc: "toLowerCase ''CREA TABLAS USUARIO Y POST'' = toLowerCase ''Crea tablas Usuario y Post''"
    by (simp add: toLowerCase_def toLowerChar_def char_of_def bit_Suc_0_iff)
  note ci = t [THEN conjunct2, THEN conjunct2, THEN conjunct2, THEN conjunct1,
      rule_format, OF lc]
  note known = t [THEN conjunct2, THEN conjunct2, THEN conjunct2, THEN conjunct2,
      THEN conjunct2, THEN conjunct2, THEN conjunct2, THEN conjunct2, THEN conjunct2,
      THEN conjunct1]
  have w1: "nodeIds (nodes (store (fst (handleGenerate (GenerateError None (Some ''Network Error''))
        HistoryError ?st)))) = [''node-usuario-ai'', ''node-post-ai'']"
    unfolding g [THEN conjunct1]
    by (rule t [THEN conjunct2, THEN conjunct2, THEN conjunct2, THEN conjunct2,
          THEN conjunct2, THEN conjunct2, THEN conjunct1])
  have w2: "length (edges (store (fst (handleGenerate (GenerateError None (Some ''Network Error''))
        HistoryError ?st)))) = 1"
    unfolding g [THEN conjunct2, THEN conjunct1] by (simp add: buildDefaultDiagram_def)
  have w3: "buildFallbackDiagram ''CREA TABLAS USUARIO Y POST'' = Some buildDefaultDiagram"
    unfolding ci by (rule known)
  have sp: "''Un SuperMercado con usuario'' = ''Un '' @ ''SuperMercado'' @ '' con usuario''"
    by simp
  have "\<exists>u w v. ''Un SuperMercado con usuario'' = u @ w @ v
        \<and> (toLowerCase w = ''supermercado'' \<or> toLowerCase w = ''supermarket'')"
    by (rule exI [of _ "''Un ''"], rule exI [of _ "''SuperMercado''"],
        rule exI [of _ "'' con usuario''"])
       (simp add: toLowerCase_def toLowerChar_def char_of_def bit_Suc_0_iff)
  then have w4: "buildFallbackDiagram ''Un SuperMercado con usuario''
                  = Some buildSupermarketDiagram"
    by (rule buildFallbackDiagram_keywords [where p = "''Un SuperMercado con usuario''",
          THEN conjunct1, rule_format])
  have w5: "buildFallbackDiagram ''Hola'' = None"
    by (simp add: buildFallbackDiagram_def toLowerCase_def toLowerChar_def char_of_def
        bit_Suc_0_iff)
  show ?thesis
    using tp w1 w2 lc w3 sp w4 w5 w6 by (intro conjI)
qed

section \<open>Reconciliation after a generation or vision call\<close>

lemma patchHistory_length: "length (patchHistory a f g prev) = length prev"
  by (simp add: patchHistory_def)

lemma patchHistory_ids: "map h_id (patchHistory a f g prev) = map h_id prev"
  by (simp add: patchHistory_def)

lemma loadHistory_history:
  "history (loadHistory options (HistoryData (Some items)) st) = map mapHistoryItem items"
  by (simp add: loadHistory_def Let_def nullish_def)

lemma handleGenerate_continue:
  assumes "trim (prompt st) \<noteq> []"
    and "g_nodes (responseGraph r) \<noteq> [] \<or> g_edges (responseGraph r) \<noteq> []"
    and "activeHistoryId st = Some a"
  shows "handleGenerate (GenerateData r) hreply st =
     ((applyGraphToCanvas (responseGraph r) st)
        \<lparr>isLoading := False, error := None,
         history := patchHistory a (\<lambda>entry. trim (prompt st)) (responseGraph r) (history st)\<rparr>,
      [PostGenerate (trim (prompt st)) (nodes (store st))
         (map (\<lambda>e. e\<lparr>sourceHandle := None, targetHandle := None\<rparr>) (edges (store st)))
         (Some a)])"
  using assms by (auto simp: handleGenerate_def Let_def applyGraphToCanvas_def)

lemma handleGenerate_fresh:
  assumes "trim (prompt st) \<noteq> []"
    and "g_nodes (responseGraph r) \<noteq> [] \<or> g_edges (responseGraph r) \<noteq> []"
    and "activeHistoryId st = None"
  shows "history (fst (handleGenerate (GenerateData r) (HistoryData (Some items)) st))
          = map mapHistoryItem items"
    and "GetHistory \<in> set (snd (handleGenerate (GenerateData r) hreply st))"
    and "activeHistoryIdRef st = None \<Longrightarrow>
         activeHistoryId (fst (handleGenerate (GenerateData r) (HistoryData (Some items)) st))
           = (case items of [] \<Rightarrow> None | item # _ \<Rightarrow> Some (api_id item))"
proof -
  show "history (fst (handleGenerate (GenerateData r) (HistoryData (Some items)) st))
          = map mapHistoryItem items"
    using assms by (auto simp: handleGenerate_def Let_def loadHistory_history)
  show "GetHistory \<in> set (snd (handleGenerate (GenerateData r) hreply st))"
    using assms by (auto simp: handleGenerate_def Let_def)
  show "activeHistoryId (fst (handleGenerate (GenerateData r) (HistoryData (Some items)) st))
           = (case items of [] \<Rightarrow> None | item # _ \<Rightarrow> Some (api_id item))"
    if "activeHistoryIdRef st = None"
    using assms that
    by (cases items)
       (auto simp: handleGenerate_def Let_def loadHistory_def applyGraphToCanvas_def
          nullish_def mapHistoryItem_def)
qed

lemma handleProcessImage_continue:
  assumes "prefix ''image/'' fileType"
    and "activeHistoryId st = Some a" and "v_history_id resp = Some a"
  shows "history (fst (handleProcessImage fileType (VisionData resp) hreply st))
          = patchHistory a
              (\<lambda>entry. orString (nullish (v_prompt resp) (trim (prompt st))) (h_prompt entry))
              (v_graph resp) (history st)"
    and "activeHistoryId (fst (handleProcessImage fileType (VisionData resp) hreply st)) = Some a"
    and "GetHistory \<notin> set (snd (handleProcessImage fileType (VisionData resp) hreply st))"
  using assms
  by (simp_all add: handleProcessImage_def Let_def applyGraphToCanvas_def)

lemma handleProcessImage_otherwise:
  assumes "prefix ''image/'' fileType"
    and "activeHistoryId st = None \<or> v_history_id resp \<noteq> activeHistoryId st"
  shows "history (fst (handleProcessImage fileType (VisionData resp)
                   (HistoryData (Some items)) st)) = map mapHistoryItem items"
    and "GetHistory \<in> set (snd (handleProcessImage fileType (VisionData resp) hreply st))"
    and "v_history_id resp = Some h \<Longrightarrow> h \<noteq> 0 \<Longrightarrow>
         activeHistoryId (fst (handleProcessImage fileType (VisionData resp) hreply st)) = Some h
         \<and> activeHistoryIdRef (fst (handleProcessImage fileType (VisionData resp) hreply st))
             = Some h"
  using assms
  by (auto simp: handleProcessImage_def Let_def applyGraphToCanvas_def loadHistory_history
      split: option.splits)

text \<open>
  C5, as the code has it. A generation call succeeds when the prompt is not blank and the
  response holds a node or a relationship. Its response is a graph and reports no history
  id, and the handler decides on the pointer alone: with an active id \<open>a\<close> it replaces
  prompt and graph of the cached entries with id \<open>a\<close>, leaves every other entry, the
  length and the order of the list and the pointer as they were, and does not fetch the
  history; with no active id it fetches the history, the cached list becomes the fetched
  one, and the pointer becomes the first fetched entry (there is no reported id to
  adopt). A vision call reports an id: with an active id \<open>a\<close> and a response that reports
  \<open>a\<close>, the cached entries with id \<open>a\<close> get the response's graph and its prompt (their
  own prompt when that is empty), nothing else in the list changes, the pointer stays \<open>a\<close>
  and the history is not fetched; otherwise the history is fetched, the cached list
  becomes the fetched one, and the pointer and its ref become the reported id when the
  response reports one that is not 0. Generating right after selecting a cached entry
  with a non-blank prompt updates that entry in place: the list keeps its length and its
  ids, the pointer is that entry's id, and the history is not fetched.
\<close>

theorem reconcile_after_call:
  "(trim (prompt st) \<noteq> []
      \<and> (g_nodes (responseGraph r) \<noteq> [] \<or> g_edges (responseGraph r) \<noteq> [])
      \<and> activeHistoryId st = Some a \<longrightarrow>
      history (fst (handleGenerate (GenerateData r) hreply st))
        = map (\<lambda>entry. if h_id entry = a
                        then entry\<lparr>h_prompt := trim (prompt st), h_graph := responseGraph r\<rparr>
                        else entry) (history st)
    \<and> length (history (fst (handleGenerate (GenerateData r) hreply st))) = length (history st)
    \<and> activeHistoryId (fst (handleGenerate (GenerateData r) hreply st)) = Some a
    \<and> activeHistoryIdRef (fst (handleGenerate (GenerateData r) hreply st))
        = activeHistoryIdRef st
    \<and> GetHistory \<notin> set (snd (handleGenerate (GenerateData r) hreply st)))
   \<and> (trim (prompt st) \<noteq> []
      \<and> (g_nodes (responseGraph r) \<noteq> [] \<or> g_edges (responseGraph r) \<noteq> [])
      \<and> activeHistoryId st = None \<and> activeHistoryIdRef st = None \<longrightarrow>
      history (fst (handleGenerate (GenerateData r) (HistoryData (Some items)) st))
        = map mapHistoryItem items
    \<and> activeHistoryId (fst (handleGenerate (GenerateData r) (HistoryData (Some items)) st))
        = (case items of [] \<Rightarrow> None | item # _ \<Rightarrow> Some (api_id item))
    \<and> GetHistory \<in> set (snd (handleGenerate (GenerateData r) hreply st)))
   \<and> (prefix ''image/'' fileType \<and> activeHistoryId st = Some a \<and> v_history_id resp = Some a \<longrightarrow>
      history (fst (handleProcessImage fileType (VisionData resp) hreply st))
        = map (\<lambda>entry. if h_id entry = a
                        then entry\<lparr>h_prompt :=
                               (if (case v_prompt resp of Some q \<Rightarrow> q | None \<Rightarrow> trim (prompt st)) = []
                                then h_prompt entry
                                else (case v_prompt resp of Some q \<Rightarrow> q
                                      | None \<Rightarrow> trim (prompt st))),
                             h_graph := v_graph resp\<rparr>
                        else entry) (history st)
    \<and> activeHistoryId (fst (handleProcessImage fileType (VisionData resp) hreply st)) = Some a
    \<and> GetHistory \<notin> set (snd (handleProcessImage fileType (VisionData resp) hreply st)))
   \<and> (prefix ''image/'' fileType
      \<and> (activeHistoryId st = None \<or> v_history_id resp \<noteq> activeHistoryId st) \<longrightarrow>
      history (fst (handleProcessImage fileType (VisionData resp) (HistoryData (Some items)) st))
        = map mapHistoryItem items
    \<and> GetHistory \<in> set (snd (handleProcessImage fileType (VisionData resp) hreply st))
    \<and> (\<forall>h. v_history_id resp = Some h \<and> h \<noteq> 0 \<longrightarrow>
          activeHistoryId (fst (handleProcessImage fileType (VisionData resp) hreply st)) = Some h
        \<and> activeHistoryIdRef (fst (handleProcessImage fileType (VisionData resp) hreply st))
            = Some h))
   \<and> (trim (h_prompt sel) \<noteq> []
      \<and> (g_nodes (responseGraph r) \<noteq> [] \<or> g_edges (responseGraph r) \<noteq> []) \<longrightarrow>
      activeHistoryId (handleHistorySelect sel st) = Some (h_id sel)
    \<and> map h_id (history (fst (handleGenerate (GenerateData r) hreply
                              (handleHistorySelect sel st))))
        = map h_id (history st)
    \<and> activeHistoryId (fst (handleGenerate (GenerateData r) hreply (handleHistorySelect sel st)))
        = Some (h_id sel)
    \<and> GetHistory \<notin> set (snd (handleGenerate (GenerateData r) hreply
                                (handleHistorySelect sel st))))"
proof -
  have g1: "trim (prompt st) \<noteq> []
      \<and> (g_nodes (responseGraph r) \<noteq> [] \<or> g_edges (responseGraph r) \<noteq> [])
      \<and> activeHistoryId st = Some a \<longrightarrow>
      history (fst (handleGenerate (GenerateData r) hreply st))
        = map (\<lambda>entry. if h_id entry = a
                        then entry\<lparr>h_prompt := trim (prompt st), h_graph := responseGraph r\<rparr>
                        else entry) (history st)
    \<and> length (history (fst (handleGenerate (GenerateData r) hreply st))) = length (history st)
    \<and> activeHistoryId (fst (handleGenerate (GenerateData r) hreply st)) = Some a
    \<and> activeHistoryIdRef (fst (handleGenerate (GenerateData r) hreply st))
        = activeHistoryIdRef st
    \<and> GetHistory \<notin> set (snd (handleGenerate (GenerateData r) hreply st))"
  proof
    assume h: "trim (prompt st) \<noteq> []
      \<and> (g_nodes (responseGraph r) \<noteq> [] \<or> g_edges (responseGraph r) \<noteq> [])
      \<and> activeHistoryId st = Some a"
    note c = handleGenerate_continue [OF h [THEN conjunct1] h [THEN conjunct2, THEN conjunct1]
        h [THEN conjunct2, THEN conjunct2], of hreply]
    show "history (fst (handleGenerate (GenerateData r) hreply st))
        = map (\<lambda>entry. if h_id entry = a
                        then entry\<lparr>h_prompt := trim (prompt st), h_graph := responseGraph r\<rparr>
                        else entry) (history st)
    \<and> length (history (fst (handleGenerate (GenerateData r) hreply st))) = length (history st)
    \<and> activeHistoryId (fst (handleGenerate (GenerateData r) hreply st)) = Some a
    \<and> activeHistoryIdRef (fst (handleGenerate (GenerateData r) hreply st))
        = activeHistoryIdRef st
    \<and> GetHistory \<notin> set (snd (handleGenerate (GenerateData r) hreply st))"
      unfolding c using h
      by (simp add: patchHistory_def applyGraphToCanvas_def)
  qed
  have g2: "trim (prompt st) \<noteq> []
      \<and> (g_nodes (responseGraph r) \<noteq> [] \<or> g_edges (responseGraph r) \<noteq> [])
      \<and> activeHistoryId st = None \<and> activeHistoryIdRef st = None \<longrightarrow>
      history (fst (handleGenerate (GenerateData r) (HistoryData (Some items)) st))
        = map mapHistoryItem items
    \<and> activeHistoryId (fst (handleGenerate (GenerateData r) (HistoryData (Some items)) st))
        = (case items of [] \<Rightarrow> None | item # _ \<Rightarrow> Some (api_id item))
    \<and> GetHistory \<in> set (snd (handleGenerate (GenerateData r) hreply st))"
    using handleGenerate_fresh [of st r] by blast
  have v1: "prefix ''image/'' fileType \<and> activeHistoryId st = Some a
      \<and> v_history_id resp = Some a \<longrightarrow>
      history (fst (handleProcessImage fileType (VisionData resp) hreply st))
        = map (\<lambda>entry. if h_id entry = a
                        then entry\<lparr>h_prompt :=
                               (if (case v_prompt resp of Some q \<Rightarrow> q | None \<Rightarrow> trim (prompt st)) = []
                                then h_prompt entry
                                else (case v_prompt resp of Some q \<Rightarrow> q
                                      | None \<Rightarrow> trim (prompt st))),
                             h_graph := v_graph resp\<rparr>
                        else entry) (history st)
    \<and> activeHistoryId (fst (handleProcessImage fileType (VisionData resp) hreply st)) = Some a
    \<and> GetHistory \<notin> set (snd (handleProcessImage fileType (VisionData resp) hreply st))"
    using handleProcessImage_continue [of fileType st a resp hreply]
    by (simp add: patchHistory_def orString_def nullish_def)
  have v2: "prefix ''image/'' fileType
      \<and> (activeHistoryId st = None \<or> v_history_id resp \<noteq> activeHistoryId st) \<longrightarrow>
      history (fst (handleProcessImage fileType (VisionData resp) (HistoryData (Some items)) st))
        = map mapHistoryItem items
    \<and> GetHistory \<in> set (snd (handleProcessImage fileType (VisionData resp) hreply st))
    \<and> (\<forall>h. v_history_id resp = Some h \<and> h \<noteq> 0 \<longrightarrow>
          activeHistoryId (fst (handleProcessImage fileType (VisionData resp) hreply st)) = Some h
        \<and> activeHistoryIdRef (fst (handleProcessImage fileType (VisionData resp) hreply st))
            = Some h)"
    using handleProcessImage_otherwise [of fileType st resp] by blast
  have sc: "trim (h_prompt sel) \<noteq> []
      \<and> (g_nodes (responseGraph r) \<noteq> [] \<or> g_edges (responseGraph r) \<noteq> []) \<longrightarrow>
      activeHistoryId (handleHistorySelect sel st) = Some (h_id sel)
    \<and> map h_id (history (fst (handleGenerate (GenerateData r) hreply
                              (handleHistorySelect sel st))))
        = map h_id (history st)
    \<and> activeHistoryId (fst (handleGenerate (GenerateData r) hreply (handleHistorySelect sel st)))
        = Some (h_id sel)
    \<and> GetHistory \<notin> set (snd (handleGenerate (GenerateData r) hreply
                                (handleHistorySelect sel st)))"
  proof
    assume h: "trim (h_prompt sel) \<noteq> []
      \<and> (g_nodes (responseGraph r) \<noteq> [] \<or> g_edges (responseGraph r) \<noteq> [])"
    let ?s = "handleHistorySelect sel st"
    have p: "trim (prompt ?s) \<noteq> []"
      using h by (simp add: handleHistorySelect_def applyGraphToCanvas_def)
    have a: "activeHistoryId ?s = Some (h_id sel)"
      by (simp add: handleHistorySelect_def)
    have hs: "history ?s = history st"
      by (simp add: handleHistorySelect_def applyGraphToCanvas_def)
    note c = handleGenerate_continue [OF p h [THEN conjunct2] a, of hreply]
    show "activeHistoryId ?s = Some (h_id sel)
    \<and> map h_id (history (fst (handleGenerate (GenerateData r) hreply ?s)))
        = map h_id (history st)
    \<and> activeHistoryId (fst (handleGenerate (GenerateData r) hreply ?s)) = Some (h_id sel)
    \<and> GetHistory \<notin> set (snd (handleGenerate (GenerateData r) hreply ?s))"
      unfolding c using a hs
      by (simp add: patchHistory_ids applyGraphToCanvas_def)
  qed
  show ?thesis
    using g1 g2 v1 v2 sc by (intro conjI)
qed

lemma exChat_prompt: "trim (prompt exChat) = ''Agrega la tabla Comentario''"
  by (simp add: exChat_def trim_def is_space_def)

lemma exResponse_nonempty:
  "g_nodes (responseGraph exResponse) \<noteq> [] \<or> g_edges (responseGraph exResponse) \<noteq> []"
  by (simp add: responseGraph_def exResponse_def nullish_def)

text \<open>
  On the example panel, where entry 7 is active: a generation updates entry 7 in place.
  And the scenario of the specification: entry 7 is selected, then its prompt is
  generated again; the list still has the two entries 7 and 3.
\<close>

theorem reconcile_after_call_witness:
  "trim (prompt exChat) \<noteq> []
   \<and> activeHistoryId exChat = Some 7
   \<and> map h_id (history (fst (handleGenerate (GenerateData exResponse)
        (HistoryData (Some exListing)) exChat))) = [7, 3]
   \<and> map h_prompt (history (fst (handleGenerate (GenerateData exResponse)
        (HistoryData (Some exListing)) exChat))) = [''Agrega la tabla Comentario'', ''Tienda'']
   \<and> activeHistoryId (fst (handleGenerate (GenerateData exResponse)
        (HistoryData (Some exListing)) exChat)) = Some 7
   \<and> trim (h_prompt (exEntry 7 ''Crea tablas Usuario y Post'')) \<noteq> []
   \<and> map h_id (history (fst (handleGenerate (GenerateData exResponse)
        (HistoryData (Some exListing))
        (handleHistorySelect (exEntry 7 ''Crea tablas Usuario y Post'') exChat)))) = [7, 3]
   \<and> activeHistoryId (fst (handleGenerate (GenerateData exResponse)
        (HistoryData (Some exListing))
        (handleHistorySelect (exEntry 7 ''Crea tablas Usuario y Post'') exChat))) = Some 7
   \<and> activeHistoryId (fst (handleGenerate (GenerateData exResponse)
        (HistoryData (Some exListing))
        ((handleNewConversation exChat)\<lparr>prompt := ''Tienda''\<rparr>))) = Some 8
   \<and> map h_id (history (fst (handleProcessImage ''image/png''
        (VisionData (exVision\<lparr>v_history_id := Some 7\<rparr>)) (HistoryData (Some exListing))
        exChat))) = [7, 3]
   \<and> map h_id (history (fst (handleProcessImage ''image/png'' (VisionData exVision)
        (HistoryData (Some exListing)) exChat))) = [8, 7, 3]
   \<and> activeHistoryId (fst (handleProcessImage ''image/png'' (VisionData exVision)
        (HistoryData (Some exListing)) exChat)) = Some 9"
proof -
  have p: "trim (prompt exChat) \<noteq> []"
    by (simp add: exChat_prompt)
  have a: "activeHistoryId exChat = Some 7"
    by (simp add: exChat_def)
  have q: "trim (h_prompt (exEntry 7 ''Crea tablas Usuario y Post'')) \<noteq> []"
    by (simp add: exEntry_def trim_def is_space_def)
  note t = reconcile_after_call [where st = exChat and r = exResponse and a = 7
      and hreply = "HistoryData (Some exListing)"
      and sel = "exEntry 7 ''Crea tablas Usuario y Post''"]
  note g = t [THEN conjunct1, rule_format, OF conjI [OF p conjI [OF exResponse_nonempty a]]]
  note s = t [THEN conjunct2, THEN conjunct2, THEN conjunct2, THEN conjunct2, rule_format,
      OF conjI [OF q exResponse_nonempty]]
  have c1: "map h_id (history (fst (handleGenerate (GenerateData exResponse)
        (HistoryData (Some exListing)) exChat))) = [7, 3]"
    unfolding g [THEN conjunct1] by (simp add: exChat_def exEntry_def comp_def)
  have c2: "map h_prompt (history (fst (handleGenerate (GenerateData exResponse)
        (HistoryData (Some exListing)) exChat))) = [''Agrega la tabla Comentario'', ''Tienda'']"
    unfolding g [THEN conjunct1] exChat_prompt by (simp add: exChat_def exEntry_def comp_def)
  have c3: "map h_id (history (fst (handleGenerate (GenerateData exResponse)
        (HistoryData (Some exListing))
        (handleHistorySelect (exEntry 7 ''Crea tablas Usuario y Post'') exChat)))) = [7, 3]"
    unfolding s [THEN conjunct2, THEN conjunct1] by (simp add: exChat_def exEntry_def)
  have c4: "activeHistoryId (fst (handleGenerate (GenerateData exResponse)
        (HistoryData (Some exListing))
        (handleHistorySelect (exEntry 7 ''Crea tablas Usuario y Post'') exChat))) = Some 7"
    unfolding s [THEN conjunct2, THEN conjunct2, THEN conjunct1] by (simp add: exEntry_def)
  let ?new = "(handleNewConversation exChat)\<lparr>prompt := ''Tienda''\<rparr>"
  have n: "trim (prompt ?new) \<noteq> []
      \<and> (g_nodes (responseGraph exResponse) \<noteq> [] \<or> g_edges (responseGraph exResponse) \<noteq> [])
      \<and> activeHistoryId ?new = None \<and> activeHistoryIdRef ?new = None"
    using exResponse_nonempty by (simp add: handleNewConversation_def trim_def is_space_def)
  note f = reconcile_after_call [where st = ?new and r = exResponse and items = exListing
      and hreply = "HistoryData (Some exListing)",
      THEN conjunct2, THEN conjunct1, rule_format, OF n]
  have c5: "activeHistoryId (fst (handleGenerate (GenerateData exResponse)
        (HistoryData (Some exListing)) ?new)) = Some 8"
    unfolding f [THEN conjunct2, THEN conjunct1] by (simp add: exListing_def exItem_def)
  have i: "prefix ''image/'' ''image/png''"
    by simp
  have v7: "prefix ''image/'' ''image/png'' \<and> activeHistoryId exChat = Some 7
      \<and> v_history_id (exVision\<lparr>v_history_id := Some 7\<rparr>) = Some 7"
    using a by simp
  note same = reconcile_after_call [where st = exChat and a = 7 and fileType = "''image/png''"
      and resp = "exVision\<lparr>v_history_id := Some 7\<rparr>"
      and hreply = "HistoryData (Some exListing)",
      THEN conjunct2, THEN conjunct2, THEN conjunct1, rule_format, OF v7]
  have c6: "map h_id (history (fst (handleProcessImage ''image/png''
        (VisionData (exVision\<lparr>v_history_id := Some 7\<rparr>)) (HistoryData (Some exListing))
        exChat))) = [7, 3]"
    unfolding same [THEN conjunct1] by (simp add: exChat_def exEntry_def comp_def)
  have v9: "prefix ''image/'' ''image/png''
      \<and> (activeHistoryId exChat = None \<or> v_history_id exVision \<noteq> activeHistoryId exChat)"
    using a by (simp add: exVision_def)
  note other = reconcile_after_call [where st = exChat and fileType = "''image/png''"
      and resp = exVision and items = exListing and hreply = "HistoryData (Some exListing)",
      THEN conjunct2, THEN conjunct2, THEN conjunct2, THEN conjunct1, rule_format, OF v9]
  have c7: "map h_id (history (fst (handleProcessImage ''image/png'' (VisionData exVision)
        (HistoryData (Some exListing)) exChat))) = [8, 7, 3]"
    unfolding other [THEN conjunct1] by (simp add: exListing_def exItem_def mapHistoryItem_def)
  have r9: "v_history_id exVision = Some 9 \<and> (9::int) \<noteq> 0"
    by (simp add: exVision_def)
  have c8: "activeHistoryId (fst (handleProcessImage ''image/png'' (VisionData exVision)
        (HistoryData (Some exListing)) exChat)) = Some 9"
    using other [THEN conjunct2, THEN conjunct2, rule_format, OF r9] by simp
  show ?thesis
    using p a c1 c2 g [THEN conjunct2, THEN conjunct2, THEN conjunct1] q c3 c4 c5 c6 c7 c8
    by (intro conjI)
qed

text \<open>
  The wording of the specification fails on the code for a generation call: the response reports
  no history id, so by that wording the list is refetched, and the cache would be the
  listing of the service with its entries 8, 7 and 3. The handler patches the cached
  entry 7 instead and does not fetch.
\<close>

theorem reconcile_after_call_counterexample:
  "activeHistoryId exChat = Some 7
   \<and> map h_id (history (fst (handleGenerate (GenerateData exResponse)
        (HistoryData (Some exListing)) exChat))) = [7, 3]
   \<and> map h_id (reconcile_spec (activeHistoryId exChat) None (trim (prompt exChat))
        (responseGraph exResponse) (history exChat) (map mapHistoryItem exListing)) = [8, 7, 3]
   \<and> GetHistory \<notin> set (snd (handleGenerate (GenerateData exResponse)
        (HistoryData (Some exListing)) exChat))
   \<and> history (fst (handleGenerate (GenerateData exResponse)
        (HistoryData (Some exListing)) exChat))
       \<noteq> reconcile_spec (activeHistoryId exChat) None (trim (prompt exChat))
           (responseGraph exResponse) (history exChat) (map mapHistoryItem exListing)"
proof -
  have a: "activeHistoryId exChat = Some 7"
    by (simp add: exChat_def)
  have p: "trim (prompt exChat) \<noteq> []"
    by (simp add: exChat_prompt)
  note c = handleGenerate_continue [OF p exResponse_nonempty a,
      of "HistoryData (Some exListing)"]
  have c1: "map h_id (history (fst (handleGenerate (GenerateData exResponse)
        (HistoryData (Some exListing)) exChat))) = [7, 3]"
    unfolding c by (simp add: patchHistory_ids applyGraphToCanvas_def exChat_def exEntry_def)
  have c2: "map h_id (reconcile_spec (activeHistoryId exChat) None (trim (prompt exChat))
        (responseGraph exResponse) (history exChat) (map mapHistoryItem exListing)) = [8, 7, 3]"
    by (simp add: reconcile_spec_def a exListing_def exItem_def mapHistoryItem_def)
  have c3: "GetHistory \<notin> set (snd (handleGenerate (GenerateData exResponse)
        (HistoryData (Some exListing)) exChat))"
    unfolding c by simp
  have c4: "history (fst (handleGenerate (GenerateData exResponse)
        (HistoryData (Some exListing)) exChat))
       \<noteq> reconcile_spec (activeHistoryId exChat) None (trim (prompt exChat))
           (responseGraph exResponse) (history exChat) (map mapHistoryItem exListing)"
    using c1 c2 by auto
  show ?thesis
    using a c1 c2 c3 c4 by (intro conjI)
qed

end
